theory Spec2Isabelle
  imports Complex_Main
begin

chapter \<open>Verification of the schedule parsers\<close>

text \<open>
  A shallow embedding of the two tournament-schedule parsers of the repository, the
  columnar parser \<open>parseWSOP2025Schedule\<close> with the rake engine \<open>getWSOPRake\<close> and the
  classifier \<open>classifyGameVariant\<close>, and the row parser \<open>parseGenericSchedule\<close>, followed by
  the properties proved of them. Every function keeps the name it has in the source;
  a pattern \<open>/.../\<close> of the source is a value of the type \<open>regex\<close> below.
\<close>

section \<open>Numbers\<close>

text \<open>
  JavaScript numbers are modelled exactly: integers as \<open>int\<close>, the percentages of the
  rake table as \<open>rat\<close>, so a product such as \<open>buyin * 12.6 / 100\<close> is the exact rational
  number and not its nearest double. \<open>Math.round\<close> rounds half up (towards plus
  infinity), for negative arguments too.
\<close>

definition Math_round :: "rat \<Rightarrow> int" where
  "Math_round x = \<lfloor>x + 1 / 2\<rfloor>"

section \<open>Strings and regular expressions\<close>

text \<open>
  JavaScript strings are modelled as HOL strings. The model is exact on ASCII text, which
  is what the patterns of the two parsers look for: a character outside ASCII is taken as
  an ordinary character that is neither white space nor a word character and has no
  upper or lower case.
\<close>

definition isDigit :: "char \<Rightarrow> bool" where
  "isDigit c = (c \<in> set ''0123456789'')"

definition isUpper :: "char \<Rightarrow> bool" where
  "isUpper c = (c \<in> set ''ABCDEFGHIJKLMNOPQRSTUVWXYZ'')"

definition isLower :: "char \<Rightarrow> bool" where
  "isLower c = (c \<in> set ''abcdefghijklmnopqrstuvwxyz'')"

text \<open>\<open>\s\<close>, and what \<open>trim\<close> strips: tab, line feed, vertical tab, form feed, carriage
  return, space.\<close>

definition isSpace :: "char \<Rightarrow> bool" where
  "isSpace c = (c \<in> set [CHR 0x09, CHR 0x0A, CHR 0x0B, CHR 0x0C, CHR 0x0D, CHR '' ''])"

text \<open>\<open>\w\<close>: letters, digits and the underscore.\<close>

definition isWordChar :: "char \<Rightarrow> bool" where
  "isWordChar c = (isDigit c \<or> isUpper c \<or> isLower c \<or> c = CHR ''_'')"

text \<open>Upper and lower case differ in the bit of value 32.\<close>

definition toUpperChar :: "char \<Rightarrow> char" where
  "toUpperChar c =
    (if isLower c
     then Char (digit0 c) (digit1 c) (digit2 c) (digit3 c) (digit4 c) False (digit6 c) (digit7 c)
     else c)"

definition toLowerChar :: "char \<Rightarrow> char" where
  "toLowerChar c =
    (if isUpper c
     then Char (digit0 c) (digit1 c) (digit2 c) (digit3 c) (digit4 c) True (digit6 c) (digit7 c)
     else c)"

text \<open>
  The same classes read off the bits of the character code (bit 0 first), for evaluation.
\<close>

lemma isDigit_bits [code]:
  "isDigit (Char b0 b1 b2 b3 b4 b5 b6 b7) =
     (if b7 then False else if b6 then False
      else if b5 then (if b4 then (if b3 then \<not> (b2 \<or> b1) else True) else False)
      else False)"
  by (cases b0; cases b1; cases b2; cases b3; cases b4; cases b5; cases b6; cases b7;
      simp add: isDigit_def)

lemma isUpper_bits [code]:
  "isUpper (Char b0 b1 b2 b3 b4 b5 b6 b7) =
     (if b7 then False
      else if b6
        then (if b5 then False
              else if b4 then (if b3 then (if b2 then False else \<not> (b1 \<and> b0)) else True)
              else (b3 \<or> b2 \<or> b1 \<or> b0))
      else False)"
  by (cases b0; cases b1; cases b2; cases b3; cases b4; cases b5; cases b6; cases b7;
      simp add: isUpper_def)

lemma isLower_bits [code]:
  "isLower (Char b0 b1 b2 b3 b4 b5 b6 b7) =
     (if b7 then False
      else if b6
        then (if b5
              then (if b4 then (if b3 then (if b2 then False else \<not> (b1 \<and> b0)) else True)
                    else (b3 \<or> b2 \<or> b1 \<or> b0))
              else False)
      else False)"
  by (cases b0; cases b1; cases b2; cases b3; cases b4; cases b5; cases b6; cases b7;
      simp add: isLower_def)

lemma isSpace_bits [code]:
  "isSpace (Char b0 b1 b2 b3 b4 b5 b6 b7) =
     (if b7 then False else if b6 then False
      else if b5 then \<not> (b4 \<or> b3 \<or> b2 \<or> b1 \<or> b0)
      else if b4 then False
      else if b3 then (if b2 then \<not> b1 else (b1 \<or> b0))
      else False)"
  by (cases b0; cases b1; cases b2; cases b3; cases b4; cases b5; cases b6; cases b7;
      simp add: isSpace_def)

definition toUpperCase :: "string \<Rightarrow> string" where
  "toUpperCase s = map toUpperChar s"

definition toLowerCase :: "string \<Rightarrow> string" where
  "toLowerCase s = map toLowerChar s"

definition trim :: "string \<Rightarrow> string" where
  "trim s = rev (dropWhile isSpace (rev (dropWhile isSpace s)))"

fun startsWith :: "string \<Rightarrow> string \<Rightarrow> bool" where
  "startsWith s [] = True"
| "startsWith [] (p # ps) = False"
| "startsWith (c # cs) (p # ps) = (if c = p then startsWith cs ps else False)"

text \<open>\<open>s.includes(pat)\<close>.\<close>

fun str_includes :: "string \<Rightarrow> string \<Rightarrow> bool" where
  "str_includes [] pat = (pat = [])"
| "str_includes (c # cs) pat = (if startsWith (c # cs) pat then True else str_includes cs pat)"

text \<open>\<open>s.indexOf(c)\<close> for a single character; \<open>None\<close> is the source's \<open>-1\<close>.\<close>

fun indexOf :: "string \<Rightarrow> char \<Rightarrow> nat option" where
  "indexOf [] ch = None"
| "indexOf (c # cs) ch = (if c = ch then Some 0 else map_option Suc (indexOf cs ch))"

text \<open>\<open>s.split(ch)\<close> for a single separator character.\<close>

fun splitOn :: "char \<Rightarrow> string \<Rightarrow> string list" where
  "splitOn ch [] = [[]]"
| "splitOn ch (c # cs) =
     (if c = ch then [] # splitOn ch cs
      else (case splitOn ch cs of [] \<Rightarrow> [[c]] | w # ws \<Rightarrow> (c # w) # ws))"

text \<open>\<open>s.slice(a, b)\<close> for indices that are not negative.\<close>

definition slice :: "string \<Rightarrow> nat \<Rightarrow> nat \<Rightarrow> string" where
  "slice s a b = take (b - a) (drop a s)"

text \<open>\<open>xs.join(sep)\<close>.\<close>

fun join :: "string \<Rightarrow> string list \<Rightarrow> string" where
  "join sep [] = []"
| "join sep [x] = x"
| "join sep (x # y # ys) = x @ sep @ join sep (y # ys)"

subsection \<open>Numbers read from text\<close>

text \<open>
  A number read by \<open>parseInt\<close> is \<open>NaN\<close> or an integer. Every argument of \<open>parseInt\<close> in the
  two parsers is a string of digits (possibly empty) cut out by a pattern, so only the
  leading digits are read: no sign, no radix prefix.
\<close>

datatype jsnum = NaN | Num int

definition digitVal :: "char \<Rightarrow> int" where
  "digitVal c = (case map_of (zip ''0123456789'' [0, 1, 2, 3, 4, 5, 6, 7, 8, 9]) c of
                   None \<Rightarrow> 0 | Some d \<Rightarrow> d)"

definition parseInt :: "string \<Rightarrow> jsnum" where
  "parseInt s =
    (case takeWhile isDigit s of
       [] \<Rightarrow> NaN
     | ds \<Rightarrow> Num (foldl (\<lambda>acc c. 10 * acc + digitVal c) 0 ds))"

text \<open>A number put into a template literal: its decimal digits.\<close>

definition digitChar :: "int \<Rightarrow> char" where
  "digitChar d =
    (if d = 0 then CHR ''0'' else if d = 1 then CHR ''1'' else if d = 2 then CHR ''2''
     else if d = 3 then CHR ''3'' else if d = 4 then CHR ''4'' else if d = 5 then CHR ''5''
     else if d = 6 then CHR ''6'' else if d = 7 then CHR ''7'' else if d = 8 then CHR ''8''
     else CHR ''9'')"

function showPos :: "int \<Rightarrow> string" where
  "showPos n = (if n < 10 then [digitChar n] else showPos (n div 10) @ [digitChar (n mod 10)])"
  by pat_completeness auto
termination
  by (relation "measure nat") auto

definition showInt :: "int \<Rightarrow> string" where
  "showInt n = (if n < 0 then CHR ''-'' # showPos (- n) else showPos n)"

definition showNum :: "jsnum \<Rightarrow> string" where
  "showNum v = (case v of NaN \<Rightarrow> ''NaN'' | Num n \<Rightarrow> showInt n)"

subsection \<open>Regular expressions\<close>

text \<open>
  The patterns of the source are values of \<open>regex\<close>. Every quantifier \<open>*\<close>, \<open>+\<close> or
  \<open>{m,n}\<close> of the source stands on a single character class, which is what \<open>Many\<close>
  offers; \<open>?\<close> is \<open>Opt\<close>. A class is a list of atoms.
\<close>

datatype catom = Lit char | Digit | Space | Word | Dot

datatype regex =
    Eps
  | One "catom list"
  | Many "catom list" nat "nat option"
  | Lits string
  | Seq regex regex
  | Alt regex regex
  | Opt regex
  | Grp nat regex
  | Bol
  | Eol
  | WordB

definition seqs :: "regex list \<Rightarrow> regex" where
  "seqs rs = foldr Seq rs Eps"

definition alts :: "regex list \<Rightarrow> regex" where
  "alts rs = (case rs of [] \<Rightarrow> Eps | _ \<Rightarrow> foldr Alt (butlast rs) (last rs))"

abbreviation Star :: "catom list \<Rightarrow> regex" where "Star cl \<equiv> Many cl 0 None"
abbreviation Plus :: "catom list \<Rightarrow> regex" where "Plus cl \<equiv> Many cl 1 None"

text \<open>
  One character against one atom. With the flag \<open>i\<close> both sides are compared in upper
  case. A range of the source such as \<open>[A-E]\<close> is written as the list of its letters.
\<close>

fun atomMatch :: "bool \<Rightarrow> catom \<Rightarrow> char \<Rightarrow> bool" where
  "atomMatch ic (Lit l) c =
     (if c = l then True else if ic then toUpperChar c = toUpperChar l else False)"
| "atomMatch ic Digit c = isDigit c"
| "atomMatch ic Space c = isSpace c"
| "atomMatch ic Word c = isWordChar c"
| "atomMatch ic Dot c = (c \<noteq> CHR 0x0A \<and> c \<noteq> CHR 0x0D)"

definition lits :: "string \<Rightarrow> catom list" where
  "lits s = map Lit s"

fun clsMatch :: "bool \<Rightarrow> catom list \<Rightarrow> char \<Rightarrow> bool" where
  "clsMatch ic [] c = False"
| "clsMatch ic (a # as) c = (if atomMatch ic a c then True else clsMatch ic as c)"

text \<open>
  A cursor is a position in the subject: the index, the character before it (for \<open>\b\<close>)
  and the text from it on.
\<close>

type_synonym cursor = "nat \<times> char option \<times> string"
type_synonym caps = "(nat \<times> string) list"

fun litMatch :: "bool \<Rightarrow> string \<Rightarrow> nat \<Rightarrow> char option \<Rightarrow> string \<Rightarrow> cursor option" where
  "litMatch ic [] i p xs = Some (i, p, xs)"
| "litMatch ic (l # ls) i p [] = None"
| "litMatch ic (l # ls) i p (x # xs) =
     (if atomMatch ic (Lit l) x then litMatch ic ls (Suc i) (Some x) xs else None)"

text \<open>The cursors after 0, 1, 2, ... characters of the class, at most \<open>mx\<close> of them.\<close>

fun runs :: "bool \<Rightarrow> catom list \<Rightarrow> nat option \<Rightarrow> nat \<Rightarrow> char option \<Rightarrow> string \<Rightarrow> cursor list" where
  "runs ic cl mx i p [] = [(i, p, [])]"
| "runs ic cl mx i p (x # xs) =
     (i, p, x # xs) #
       (if mx = Some 0 then []
        else if clsMatch ic cl x
        then runs ic cl (map_option (\<lambda>m. m - 1) mx) (Suc i) (Some x) xs
        else [])"

definition isWordOpt :: "char option \<Rightarrow> bool" where
  "isWordOpt p = (case p of None \<Rightarrow> False | Some c \<Rightarrow> isWordChar c)"

text \<open>
  \<open>rmatch\<close> lists every way the pattern matches at the cursor, in the order in which a
  backtracking matcher tries them (a quantifier takes as much as it can first, an
  alternative goes left to right): the head of the list is the match JavaScript reports.
  A group records the text it matched under its number; an iteration of \<open>?\<close> that
  matches the empty string is rejected, as in ECMAScript.
\<close>

fun rmatch :: "bool \<Rightarrow> regex \<Rightarrow> cursor \<Rightarrow> caps \<Rightarrow> (cursor \<times> caps) list" where
  "rmatch ic Eps cur cs = [(cur, cs)]"
| "rmatch ic (One cl) (i, p, xs) cs =
     (case xs of
        [] \<Rightarrow> []
      | x # xs' \<Rightarrow> if clsMatch ic cl x then [((Suc i, Some x, xs'), cs)] else [])"
| "rmatch ic (Many cl mn mx) (i, p, xs) cs =
     map (\<lambda>c. (c, cs)) (rev (drop mn (runs ic cl mx i p xs)))"
| "rmatch ic (Lits s) (i, p, xs) cs =
     (case litMatch ic s i p xs of None \<Rightarrow> [] | Some c \<Rightarrow> [(c, cs)])"
| "rmatch ic (Seq a b) cur cs =
     concat (map (\<lambda>(c, cs'). rmatch ic b c cs') (rmatch ic a cur cs))"
| "rmatch ic (Alt a b) cur cs = rmatch ic a cur cs @ rmatch ic b cur cs"
| "rmatch ic (Opt a) cur cs =
     filter (\<lambda>(c, cs'). fst c \<noteq> fst cur) (rmatch ic a cur cs) @ [(cur, cs)]"
| "rmatch ic (Grp n a) (i, p, xs) cs =
     map (\<lambda>(c, cs'). (c, (n, take (fst c - i) xs) # cs')) (rmatch ic a (i, p, xs) cs)"
| "rmatch ic Bol (i, p, xs) cs = (if i = 0 then [((i, p, xs), cs)] else [])"
| "rmatch ic Eol (i, p, xs) cs = (if xs = [] then [((i, p, xs), cs)] else [])"
| "rmatch ic WordB (i, p, xs) cs =
     (if isWordOpt p \<noteq> isWordOpt (case xs of [] \<Rightarrow> None | x # _ \<Rightarrow> Some x)
      then [((i, p, xs), cs)] else [])"

text \<open>The result of \<open>exec\<close> or \<open>match\<close>: where the match starts, its text, its groups.\<close>

record rmatched =
  index :: nat
  matched :: string
  groups :: caps

definition group :: "rmatched \<Rightarrow> nat \<Rightarrow> string option" where
  "group m n = map_of (groups m) n"

text \<open>The text of a group; empty when the group took no part in the match.\<close>

definition groupText :: "rmatched \<Rightarrow> nat \<Rightarrow> string" where
  "groupText m n = (case group m n of None \<Rightarrow> [] | Some g \<Rightarrow> g)"

text \<open>Where the match ends: \<open>m.index + m[0].length\<close>.\<close>

definition matchEnd :: "rmatched \<Rightarrow> nat" where
  "matchEnd m = index m + length (matched m)"

definition mkMatched :: "nat \<Rightarrow> string \<Rightarrow> (cursor \<times> caps) \<Rightarrow> rmatched" where
  "mkMatched i xs r = \<lparr>index = i, matched = take (fst (fst r) - i) xs, groups = snd r\<rparr>"

text \<open>The leftmost match at or after the cursor.\<close>

fun rsearch :: "bool \<Rightarrow> regex \<Rightarrow> nat \<Rightarrow> char option \<Rightarrow> string \<Rightarrow> rmatched option" where
  "rsearch ic r i p [] =
     (case rmatch ic r (i, p, []) [] of [] \<Rightarrow> None | m # _ \<Rightarrow> Some (mkMatched i [] m))"
| "rsearch ic r i p (x # xs) =
     (case rmatch ic r (i, p, x # xs) [] of
        [] \<Rightarrow> rsearch ic r (Suc i) (Some x) xs
      | m # _ \<Rightarrow> Some (mkMatched i (x # xs) m))"

text \<open>\<open>s.match(re)\<close> and \<open>re.exec(s)\<close> without the flag \<open>g\<close>; \<open>re.test(s)\<close>.\<close>

definition rexec :: "bool \<Rightarrow> regex \<Rightarrow> string \<Rightarrow> rmatched option" where
  "rexec ic r s = rsearch ic r 0 None s"

definition rtest :: "bool \<Rightarrow> regex \<Rightarrow> string \<Rightarrow> bool" where
  "rtest ic r s = (rexec ic r s \<noteq> None)"

text \<open>
  All matches from left to right, as the flag \<open>g\<close> finds them: the search goes on where
  the last match ended, one character further after an empty match.
\<close>

fun rall :: "bool \<Rightarrow> regex \<Rightarrow> nat \<Rightarrow> nat \<Rightarrow> char option \<Rightarrow> string \<Rightarrow> rmatched list" where
  "rall ic r skip i p [] =
     (if i < skip then []
      else case rmatch ic r (i, p, []) [] of [] \<Rightarrow> [] | m # _ \<Rightarrow> [mkMatched i [] m])"
| "rall ic r skip i p (x # xs) =
     (if i < skip then rall ic r skip (Suc i) (Some x) xs
      else case rmatch ic r (i, p, x # xs) [] of
             [] \<Rightarrow> rall ic r skip (Suc i) (Some x) xs
           | m # _ \<Rightarrow>
               mkMatched i (x # xs) m #
                 rall ic r (if i < fst (fst m) then fst (fst m) else Suc i) (Suc i) (Some x) xs)"

definition matchAll :: "bool \<Rightarrow> regex \<Rightarrow> string \<Rightarrow> rmatched list" where
  "matchAll ic r s = rall ic r 0 0 None s"

text \<open>The text between the matches (\<open>split\<close>), and with a replacement put in (\<open>replace\<close>).\<close>

fun pieces :: "nat \<Rightarrow> rmatched list \<Rightarrow> string \<Rightarrow> string list" where
  "pieces pos [] rest = [rest]"
| "pieces pos (m # ms) rest =
     take (index m - pos) rest #
       pieces (index m + length (matched m)) ms (drop (index m - pos + length (matched m)) rest)"

definition splitRe :: "bool \<Rightarrow> regex \<Rightarrow> string \<Rightarrow> string list" where
  "splitRe ic r s = pieces 0 (matchAll ic r s) s"

definition replaceAll :: "bool \<Rightarrow> regex \<Rightarrow> string \<Rightarrow> string \<Rightarrow> string" where
  "replaceAll ic r rep s = join rep (pieces 0 (matchAll ic r s) s)"

definition replaceFirst :: "bool \<Rightarrow> regex \<Rightarrow> string \<Rightarrow> string \<Rightarrow> string" where
  "replaceFirst ic r rep s =
    (case rexec ic r s of None \<Rightarrow> s | Some m \<Rightarrow> join rep (pieces 0 [m] s))"

section \<open>Rake and fee engine (getWSOPRake)\<close>

record tier =
  entryFeePct :: rat
  dealerStaffPct :: rat
  totalPct :: rat

definition mkTier :: "rat \<Rightarrow> rat \<Rightarrow> rat \<Rightarrow> tier" where
  "mkTier e d t = \<lparr>entryFeePct = e, dealerStaffPct = d, totalPct = t\<rparr>"

definition WSOP_RAKE_BY_BUYIN :: "(int \<times> tier) list" where
  "WSOP_RAKE_BY_BUYIN =
    [(300,    mkTier 12.6 5.4 18.0),
     (400,    mkTier 12.25 5.25 17.5),
     (500,    mkTier 11.9 5.1 17.0),
     (550,    mkTier 11.9 5.1 17.0),
     (600,    mkTier 11.2 4.8 16.0),
     (800,    mkTier 8.75 3.75 12.5),
     (1000,   mkTier 8.4 3.6 12.0),
     (1500,   mkTier 8.05 3.45 11.5),
     (1700,   mkTier 8.05 3.45 11.5),
     (2000,   mkTier 7.7 3.3 11.0),
     (2500,   mkTier 7.7 3.3 11.0),
     (3000,   mkTier 7.7 3.3 11.0),
     (5000,   mkTier 5.6 2.4 8.0),
     (10000,  mkTier 4.9 2.1 7.0),
     (25000,  mkTier 4.2 1.8 6.0),
     (50000,  mkTier 3.5 1.5 5.0),
     (100000, mkTier 2.8 1.2 4.0),
     (250000, mkTier 1.4 0.6 2.0)]"

definition WSOP_RAKE_OVERRIDES :: "(string \<times> tier) list" where
  "WSOP_RAKE_OVERRIDES = [(''59'', mkTier 7.0 3.0 10.0)]"

text \<open>The object returned by \<open>getWSOPRake\<close>; \<open>None\<close> is JavaScript's \<open>null\<close>.\<close>

record rake =
  rakePct :: "rat option"
  rakeDollars :: "int option"
  prizePool :: "int option"
  houseFee :: "int option"
  optAddOn :: "int option"

text \<open>
  The source writes the same five-field computation three times, once per way of
  resolving a tier; \<open>tierRake\<close> is that block.
\<close>

definition tierRake :: "tier \<Rightarrow> int \<Rightarrow> rake" where
  "tierRake t buyin =
    (let rd = Math_round (of_int buyin * totalPct t / 100);
         hf = Math_round (of_int buyin * entryFeePct t / 100);
         dealerStaff = Math_round (of_int buyin * dealerStaffPct t / 100)
     in \<lparr>rakePct = Some (totalPct t), rakeDollars = Some rd, prizePool = Some (buyin - rd),
         houseFee = Some hf, optAddOn = Some dealerStaff\<rparr>)"

definition nullRake :: rake where
  "nullRake = \<lparr>rakePct = None, rakeDollars = None, prizePool = None,
                houseFee = None, optAddOn = None\<rparr>"

text \<open>The \<open>for (const t of tiers) { if (t <= buyin) bestTier = t; else break; }\<close> loop.\<close>

fun bestTierLoop :: "int list \<Rightarrow> int \<Rightarrow> int option \<Rightarrow> int option" where
  "bestTierLoop [] buyin best = best"
| "bestTierLoop (t # ts) buyin best =
     (if t \<le> buyin then bestTierLoop ts buyin (Some t) else best)"

text \<open>
  \<open>eventNumber && WSOP_RAKE_OVERRIDES[eventNumber]\<close>: a missing or empty event number
  is falsy and skips the override table. Event numbers are digit strings with an optional
  flight letter; property names inherited from \<open>Object.prototype\<close> are not event numbers
  and are not modelled.
\<close>

definition overrideFor :: "string option \<Rightarrow> tier option" where
  "overrideFor eventNumber =
    (case eventNumber of
       None \<Rightarrow> None
     | Some e \<Rightarrow> if e = [] then None else map_of WSOP_RAKE_OVERRIDES e)"

definition getWSOPRake :: "int \<Rightarrow> string option \<Rightarrow> rake" where
  "getWSOPRake buyin eventNumber =
    (case overrideFor eventNumber of
       Some override \<Rightarrow> tierRake override buyin
     | None \<Rightarrow>
        (case map_of WSOP_RAKE_BY_BUYIN buyin of
           Some t \<Rightarrow> tierRake t buyin
         | None \<Rightarrow>
            (let tiers = sort (map fst WSOP_RAKE_BY_BUYIN);
                 bestTier = bestTierLoop tiers buyin None;
                 bestTier' = (if bestTier = None \<and> tiers \<noteq> [] then Some (hd tiers) else bestTier)
             in case bestTier' of
                  None \<Rightarrow> nullRake
                | Some b \<Rightarrow>
                   (case map_of WSOP_RAKE_BY_BUYIN b of
                      Some t \<Rightarrow> tierRake t buyin
                    | None \<Rightarrow> nullRake))))"

text \<open>In every tier the two sub-fee percentages add up to the total percentage.\<close>

definition tier_adds_up :: "tier \<Rightarrow> bool" where
  "tier_adds_up t = (entryFeePct t + dealerStaffPct t = totalPct t)"

section \<open>Game variant classifier (classifyGameVariant)\<close>

text \<open>
  The first lines of \<open>classifyGameVariant\<close>: the name up to the first semicolon, when
  \<open>indexOf\<close> finds one at an index greater than 0.
\<close>

definition mainName :: "string \<Rightarrow> string" where
  "mainName eventName =
    (case indexOf eventName (CHR '';'') of
       None \<Rightarrow> eventName
     | Some semi \<Rightarrow> if semi > 0 then take semi eventName else eventName)"

definition re_torse :: regex where
  "re_torse = seqs [WordB, Lits ''t'', Opt (Lits ''.''), Lits ''o'', Opt (Lits ''.''),
                    Lits ''r'', Opt (Lits ''.''), Lits ''s'', Opt (Lits ''.''),
                    Lits ''e'', Opt (Lits ''.''), WordB]"

definition re_mixed_start :: regex where
  "re_mixed_start = seqs [Bol, Lits ''mixed'', One [Lit (CHR '':''), Space]]"

definition re_mixed_game :: regex where
  "re_mixed_game = seqs [WordB, Lits ''mixed game'']"

definition re_plo8 :: regex where
  "re_plo8 = seqs [WordB, Lits ''plo'', Star [Space], Lits ''8'', WordB]"

definition re_plo :: regex where
  "re_plo = seqs [WordB, Lits ''plo'', WordB]"

definition re_big_o :: regex where
  "re_big_o = seqs [WordB, Lits ''big'', Opt (One [Lit (CHR ''-''), Lit (CHR '' '')]),
                    Lits ''o'', WordB]"

text \<open>The chain of tests on the lower-cased main name; the first that holds decides.\<close>

definition variantOf :: "string \<Rightarrow> string" where
  "variantOf lower =
    (if str_includes lower ''dealers choice'' then ''Dealers Choice''
     else if str_includes lower ''8-game'' \<or> str_includes lower ''8 game mix''
             \<or> str_includes lower ''nine game'' then ''Mixed Games''
     else if str_includes lower ''h.o.r.s.e'' then ''H.O.R.S.E.''
     else if rtest True re_torse lower \<or> str_includes lower ''torse'' then ''T.O.R.S.E.''
     else if str_includes lower ''mixed plo'' then ''PLO''
     else if rtest True re_mixed_start lower \<or> rtest True re_mixed_game lower
       then ''Mixed Games''
     else if str_includes lower ''pot-limit omaha hi-lo'' \<or> str_includes lower ''plo hi-lo''
       then ''PLO Hi-Lo''
     else if rtest True re_plo8 lower \<or> str_includes lower ''plo hi/lo'' then ''PLO Hi-Lo''
     else if str_includes lower ''5 card plo'' \<or> str_includes lower ''5-card plo''
       then ''5-Card PLO''
     else if str_includes lower ''pot-limit omaha'' \<or> rtest True re_plo lower then ''PLO''
     else if rtest True re_big_o lower then ''Big O''
     else if str_includes lower ''omaha hi-lo'' then ''Omaha Hi-Lo''
     else if str_includes lower ''2-7'' \<and> str_includes lower ''triple draw''
       then ''2-7 Triple Draw''
     else if str_includes lower ''2-7'' \<and> str_includes lower ''lowball'' then ''2-7 Lowball''
     else if str_includes lower ''stud hi-lo'' then ''Stud Hi-Lo''
     else if str_includes lower ''seven card stud'' then ''7-Card Stud''
     else if str_includes lower ''razz'' then ''Razz''
     else if str_includes lower ''badugi'' then ''Badugi''
     else if str_includes lower ''limit hold'' \<and> \<not> str_includes lower ''no-limit''
       then ''Limit Holdem''
     else ''NLHE'')"

definition classifyGameVariant :: "string \<Rightarrow> string" where
  "classifyGameVariant eventName = variantOf (toLowerCase (mainName eventName))"

text \<open>The labels that \<open>classifyGameVariant\<close> can return, in the order of its tests.\<close>

definition variantLabels :: "string list" where
  "variantLabels =
    [''Dealers Choice'', ''Mixed Games'', ''H.O.R.S.E.'', ''T.O.R.S.E.'', ''PLO'',
     ''PLO Hi-Lo'', ''5-Card PLO'', ''Big O'', ''Omaha Hi-Lo'', ''2-7 Triple Draw'',
     ''2-7 Lowball'', ''Stud Hi-Lo'', ''7-Card Stud'', ''Razz'', ''Badugi'',
     ''Limit Holdem'', ''NLHE'']"

section \<open>Tournament records\<close>

text \<open>
  The object that both pipelines return for an event. \<open>None\<close> is \<open>null\<close>. The columnar
  pipeline leaves the notes, the two flags, the target event and the parent event unset,
  which reads as \<open>None\<close> and \<open>False\<close>. An amount read from the text is a \<open>jsnum\<close>. The
  field \<open>notes\<close> of the source is \<open>notes'\<close> here, and the variable \<open>section\<close> further down
  is \<open>section'\<close>: both words are keywords of Isabelle.
\<close>

record tournament =
  eventNumber :: "string option"
  eventName :: string
  date :: string
  time :: string
  buyin :: jsnum
  prizePool :: "jsnum option"
  houseFee :: "jsnum option"
  optAddOn :: "jsnum option"
  rakePct :: "rat option"
  rakeDollars :: "int option"
  startingChips :: "int option"
  levelDuration :: string
  reentry :: "string option"
  lateReg :: "string option"
  gameVariant :: string
  venue :: string
  notes' :: "string option"
  isSatellite :: bool
  isRestart :: bool
  targetEvent :: "string option"
  parentEvent :: "string option"

text \<open>\<open>xs[i]\<close>: \<open>None\<close> is \<open>undefined\<close>, out of range.\<close>

fun nthOpt :: "'a list \<Rightarrow> nat \<Rightarrow> 'a option" where
  "nthOpt [] i = None"
| "nthOpt (x # xs) 0 = Some x"
| "nthOpt (x # xs) (Suc i) = nthOpt xs i"

text \<open>\<open>xs[i] || d\<close> for strings: the default for \<open>undefined\<close> and for the empty string.\<close>

definition strOr :: "string option \<Rightarrow> string \<Rightarrow> string" where
  "strOr v d = (case v of None \<Rightarrow> d | Some s \<Rightarrow> if s = [] then d else s)"

section \<open>Columnar pipeline (parseWSOP2025Schedule)\<close>

definition re_page_break :: regex where
  "re_page_break = seqs [Lits ''-- '', Plus [Digit], Lits '' of '', Plus [Digit], Lits '' --'']"

definition re_continuation_day :: regex where
  "re_continuation_day =
     seqs [Bol, Lits ''MAIN EVENT'', Star [Space], Lits ''-'', Star [Space],
           Grp 1 (alts [seqs [Lits ''Day'', Plus [Space], One [Digit]],
                        seqs [Lits ''Day'', Plus [Space], Lits ''Off''],
                        Lits ''Plays'', Lits ''Final''])]"

definition re_page_number :: regex where
  "re_page_number = seqs [Bol, Plus [Digit], Lits ''/'', Plus [Digit], Eol]"

definition re_date_line :: regex where
  "re_date_line =
     seqs [Bol, Grp 1 (alts [Lits ''May'', Lits ''June'', Lits ''July'']),
           Plus [Space], Plus [Digit], Eol]"

definition re_time_line :: regex where
  "re_time_line =
     seqs [Bol, Many [Digit] 1 (Some 2),
           Opt (Grp 1 (seqs [Lits '':'', Many [Digit] 2 (Some 2)])),
           Star [Space], Grp 2 (alts [Lits ''AM'', Lits ''PM'']), Eol]"

definition re_dollar_start :: regex where
  "re_dollar_start = seqs [Bol, Lits ''$'']"

definition re_dollar_amount :: regex where
  "re_dollar_amount = seqs [Lits ''$'', Grp 1 (Plus [Digit, Lit (CHR '','')])]"

definition re_comma :: regex where
  "re_comma = Lits '',''"

definition re_spaces :: regex where
  "re_spaces = Plus [Space]"

definition re_chips_line :: regex where
  "re_chips_line = seqs [Bol, Plus [Digit, Lit (CHR '','')], Eol]"

definition re_duration_line :: regex where
  "re_duration_line = seqs [Bol, Plus [Digit, Space, Lit (CHR ''/'')], Eol]"

definition re_digits_line :: regex where
  "re_digits_line = seqs [Bol, Plus [Digit], Eol]"

definition re_per_flight :: regex where
  "re_per_flight =
     seqs [Bol, Plus [Digit], Star [Space], Lits ''/'', Star [Space], Lits ''flight'']"

definition re_levels_line :: regex where
  "re_levels_line =
     seqs [Bol, Plus [Digit], Star [Space], Lits ''level'', Opt (Lits ''s''), Eol]"

definition re_first :: regex where
  "re_first = seqs [Bol, Lits ''First'']"

definition re_event_number :: regex where
  "re_event_number = seqs [Bol, Many [Digit] 1 (Some 3), Opt (One (lits ''ABCDE'')), Eol]"

definition re_n_day_event_end :: regex where
  "re_n_day_event_end =
     seqs [Lits ''('', Plus [Digit], Lits ''-day event)'', Star [Space], Eol]"

text \<open>The \<open>starters\<close> of \<open>isNewEventName\<close>, in the order of the source; all with the flag \<open>i\<close>.\<close>

definition starters :: "regex list" where
  "starters =
    [seqs [Bol, Lits ''Mystery''], seqs [Bol, Lits ''Industry''],
     seqs [Bol, Plus [Digit], Lits ''-Handed''], seqs [Bol, Lits ''Omaha Hi-Lo''],
     seqs [Bol, Lits ''Pot-Limit''],
     seqs [Bol, Lits ''Seven Card Stud'', Plus [Space], Lits ''(''],
     seqs [Bol, Lits ''Heads Up''], seqs [Bol, Lits ''Dealers Choice''],
     seqs [Bol, Lits ''No-Limit''],
     seqs [Bol, Lits ''COLOSSUS''], seqs [Bol, Lits ''SHOOTOUT''],
     seqs [Bol, Lits ''High Roller''], seqs [Bol, Lits ''Badugi'', Plus [Space], Lits ''(''],
     seqs [Bol, Lits ''Big O''],
     seqs [Bol, Lits ''Mixed'', One [Lit (CHR '':''), Space]],
     seqs [Bol, Lits ''Super Turbo''], seqs [Bol, Lits ''Freezeout''],
     seqs [Bol, Lits ''MONSTER''], seqs [Bol, Lits ''Seniors''],
     seqs [Bol, Lits ''SENIORS''], seqs [Bol, Lits ''MILLIONAIRE''],
     seqs [Bol, Lits ''Battle''], seqs [Bol, Lits ''SUPER SENIORS''],
     seqs [Bol, Lits ''TAG TEAM''], seqs [Bol, Lits ''Poker Players''],
     seqs [Bol, Lits ''Gladiators''], seqs [Bol, Lits ''LADIES''],
     seqs [Bol, Lits ''Limit 2-7''], seqs [Bol, Lits ''Limit Hold''],
     seqs [Bol, Lits ''MINI''], seqs [Bol, Lits ''Pokernews''], seqs [Bol, Lits ''Summer''],
     seqs [Bol, Lits ''MAIN EVENT''], seqs [Bol, Lits ''Ultra Stack''],
     seqs [Bol, Lits ''Mid-Stakes''], seqs [Bol, Lits ''Lucky''],
     seqs [Bol, Lits ''Poker Hall''], seqs [Bol, Lits ''T.O.R.S.E''],
     seqs [Bol, Lits ''The Closer''], seqs [Bol, Lits ''H.O.R.S.E''],
     seqs [Bol, Lits ''Razz'', Plus [Space], Lits ''(''], seqs [Bol, Lits ''SALUTE''],
     seqs [Bol, Lits ''6-Handed''], seqs [Bol, Lits ''8-Handed'']]"

fun someTest :: "regex list \<Rightarrow> string \<Rightarrow> bool" where
  "someTest [] line = False"
| "someTest (r # rs) line = (if rtest True r line then True else someTest rs line)"

definition isNewEventName :: "string \<Rightarrow> string list \<Rightarrow> bool" where
  "isNewEventName line buffer =
    (if buffer = [] then True
     else let bufferText = join '' '' buffer
          in if str_includes bufferText '';'' \<and> \<not> rtest True re_n_day_event_end bufferText
             then False
             else someTest starters line)"

datatype sect =
    NoSection | Dates | Days | Times | Buyins | Chips | Durations | Reentries | LateRegs
  | EventNames | EventNumbers

text \<open>
  The \<open>result\<close> object of \<open>findSections\<close>. An entry of \<open>allBuyins\<close> or \<open>chips\<close> is \<open>None\<close>
  (\<open>null\<close>) for a dash.
\<close>

record sections =
  dates :: "string list"
  times :: "string list"
  allBuyins :: "jsnum option list"
  chips :: "jsnum option list"
  durations :: "string list"
  reentries :: "string list"
  lateRegs :: "string list"
  eventNames :: "string list"
  eventNumbers :: "string list"

text \<open>The state of the loop over the lines: \<open>result\<close>, \<open>section\<close> and \<open>eventNameBuffer\<close>.\<close>

record scan = sections +
  section' :: sect
  eventNameBuffer :: "string list"

definition flushBuffer :: "scan \<Rightarrow> scan" where
  "flushBuffer st =
    (if eventNameBuffer st \<noteq> []
     then st\<lparr>eventNames := eventNames st @ [join '' '' (eventNameBuffer st)],
             eventNameBuffer := []\<rparr>
     else st)"

text \<open>
  The chain \<open>if (section === 'dates' && ...) ... else if (section === 'lateRegs') ...\<close>:
  a line is appended to the column of the current section when it has the column's form.
  In the late-registration column a line of another form switches to the event names.
\<close>

definition collectLine :: "scan \<Rightarrow> string \<Rightarrow> scan" where
  "collectLine st line =
    (if section' st = Dates \<and> rtest True re_date_line line
       then st\<lparr>dates := dates st @ [line]\<rparr>
     else if section' st = Days then st
     else if section' st = Times then
       (if rtest True re_time_line line \<or> line = ''TBD''
        then st\<lparr>times := times st @ [toUpperCase (replaceAll False re_spaces [] line)]\<rparr>
        else st)
     else if section' st = Buyins then
       (if line = ''-'' then st\<lparr>allBuyins := allBuyins st @ [None]\<rparr>
        else if rtest False re_dollar_start line then
          (case rexec False re_dollar_amount line of
             None \<Rightarrow> st\<lparr>allBuyins := allBuyins st @ [None]\<rparr>
           | Some m \<Rightarrow>
               st\<lparr>allBuyins := allBuyins st @
                    [Some (parseInt (replaceAll False re_comma [] (groupText m 1)))]\<rparr>)
        else st)
     else if section' st = Chips then
       (if rtest False re_chips_line line \<or> line = ''-''
        then st\<lparr>chips := chips st @
               [if line = ''-'' then None
                else Some (parseInt (replaceAll False re_comma [] line))]\<rparr>
        else st)
     else if section' st = Durations then
       (if rtest False re_duration_line line \<or> line = ''-''
        then st\<lparr>durations := durations st @ [if line = ''-'' then [] else line]\<rparr>
        else st)
     else if section' st = Reentries then
       (if rtest False re_digits_line line \<or> rtest True re_per_flight line
           \<or> str_includes (toLowerCase line) ''unlimited''
           \<or> str_includes (toLowerCase line) ''bust'' \<or> line = ''0''
        then st\<lparr>reentries := reentries st @ [line]\<rparr>
        else st)
     else if section' st = LateRegs then
       (if rtest True re_levels_line line \<or> rtest True re_first line
        then st\<lparr>lateRegs := lateRegs st @ [line]\<rparr>
        else st\<lparr>section' := EventNames\<rparr>)
     else st)"

text \<open>The second chain: event names are buffered, event numbers are collected.\<close>

definition nameOrNumber :: "scan \<Rightarrow> string \<Rightarrow> scan" where
  "nameOrNumber st line =
    (if section' st = EventNames then
       (if isNewEventName line (eventNameBuffer st)
        then (flushBuffer st)\<lparr>eventNameBuffer := [line]\<rparr>
        else st\<lparr>eventNameBuffer := eventNameBuffer st @ [line]\<rparr>)
     else if section' st = EventNumbers then
       (if rtest False re_event_number line
        then st\<lparr>eventNumbers := eventNumbers st @ [line]\<rparr>
        else st)
     else st)"

text \<open>One turn of the loop of \<open>findSections\<close>.\<close>

definition scanLine :: "scan \<Rightarrow> string \<Rightarrow> scan" where
  "scanLine st line =
    (if str_includes line ''EVENT NAME'' \<and> str_includes line ''DATE''
       then st\<lparr>section' := Dates\<rparr>
     else if line = ''DAY'' then st\<lparr>section' := Days\<rparr>
     else if line = ''TIME'' then st\<lparr>section' := Times\<rparr>
     else if line = ''BUY-IN'' then st\<lparr>section' := Buyins\<rparr>
     else if line = ''STARTING'' then st\<lparr>section' := Chips\<rparr>
     else if line = ''CHIPS'' then st
     else if line = ''LVL'' then st\<lparr>section' := Durations\<rparr>
     else if line = ''DURATION'' \<or> line = ''(MINUTES)'' then st
     else if line = ''RE-ENTRY'' then st\<lparr>section' := Reentries\<rparr>
     else if line = ''LATE'' then st\<lparr>section' := LateRegs\<rparr>
     else if line = ''REG.'' then st
     else if line = ''EV#'' then (flushBuffer st)\<lparr>section' := EventNumbers\<rparr>
     else if rtest False re_page_number line then st
     else if line = ''WOHLD SERIES'' \<or> line = ''PDi<ER'' then st
     else nameOrNumber (collectLine st line) line)"

definition initialScan :: scan where
  "initialScan =
    \<lparr>dates = [], times = [], allBuyins = [], chips = [], durations = [], reentries = [],
     lateRegs = [], eventNames = [], eventNumbers = [],
     section' = NoSection, eventNameBuffer = []\<rparr>"

text \<open>The filter on the event names at the end of \<open>findSections\<close>.\<close>

definition keepName :: "string \<Rightarrow> bool" where
  "keepName n =
    (if str_includes (toLowerCase n) ''registration opens'' then False
     else if rtest True re_continuation_day n then False
     else True)"

definition findSections :: "string list \<Rightarrow> sections" where
  "findSections lines =
    (let st = flushBuffer (foldl scanLine initialScan lines)
     in \<lparr>dates = dates st, times = times st, allBuyins = allBuyins st, chips = chips st,
         durations = durations st, reentries = reentries st, lateRegs = lateRegs st,
         eventNames = filter keepName (eventNames st), eventNumbers = eventNumbers st\<rparr>)"

text \<open>The indices of the entries of \<open>allBuyins\<close> that are not \<open>null\<close>.\<close>

definition validBuyinIndices :: "jsnum option list \<Rightarrow> nat list" where
  "validBuyinIndices bs = filter (\<lambda>idx. nthOpt bs idx \<noteq> Some None) [0..<length bs]"

text \<open>
  One turn of the loop of \<open>parsePage\<close>: the record of event \<open>i\<close>, or \<open>None\<close> where the
  source says \<open>continue\<close>. \<open>!buyin\<close> holds for \<open>NaN\<close> and for 0.
\<close>

definition pageEvent :: "sections \<Rightarrow> int \<Rightarrow> nat \<Rightarrow> tournament option" where
  "pageEvent s year i =
    (case nthOpt (eventNumbers s) i of
       None \<Rightarrow> None
     | Some eventNum \<Rightarrow>
        (let name = strOr (nthOpt (eventNames s) i) []
         in if rtest True re_continuation_day name then None
            else case nthOpt (validBuyinIndices (allBuyins s)) i of
              None \<Rightarrow> None
            | Some rowIdx \<Rightarrow>
               (case nthOpt (allBuyins s) rowIdx of
                  Some (Some (Num b)) \<Rightarrow>
                    if b = 0 \<or> b < 100 then None
                    else
                      (let rk = getWSOPRake b (Some eventNum)
                       in Some \<lparr>eventNumber = Some eventNum,
                                eventName = name,
                                date = (case nthOpt (dates s) rowIdx of
                                          None \<Rightarrow> []
                                        | Some d \<Rightarrow> if d = [] then []
                                                    else d @ '', '' @ showInt year),
                                time = strOr (nthOpt (times s) rowIdx) ''TBD'',
                                buyin = Num b,
                                prizePool = map_option Num (rake.prizePool rk),
                                houseFee = map_option Num (rake.houseFee rk),
                                optAddOn = map_option Num (rake.optAddOn rk),
                                rakePct = rake.rakePct rk,
                                rakeDollars = rake.rakeDollars rk,
                                startingChips =
                                  (case nthOpt (chips s) i of
                                     Some (Some (Num c)) \<Rightarrow> if c = 0 then None else Some c
                                   | _ \<Rightarrow> None),
                                levelDuration = strOr (nthOpt (durations s) i) [],
                                reentry = Some (strOr (nthOpt (reentries s) i) []),
                                lateReg = Some (strOr (nthOpt (lateRegs s) i) []),
                                gameVariant = classifyGameVariant name,
                                venue = ''WSOP Las Vegas'',
                                notes' = None, isSatellite = False, isRestart = False,
                                targetEvent = None, parentEvent = None\<rparr>)
                | _ \<Rightarrow> None)))"

text \<open>\<open>pageText.split('\n').map(l => l.trim()).filter(l => l)\<close>.\<close>

definition pageLines :: "string \<Rightarrow> string list" where
  "pageLines pageText = filter (\<lambda>l. l \<noteq> []) (map trim (splitOn (CHR 0x0A) pageText))"

definition parsePage :: "string \<Rightarrow> int \<Rightarrow> tournament list" where
  "parsePage pageText year =
    (let s = findSections (pageLines pageText)
     in if eventNumbers s = [] then []
        else List.map_filter (pageEvent s year) [0..<length (eventNumbers s)])"

definition isInfoPage :: "string \<Rightarrow> bool" where
  "isInfoPage page =
    (str_includes page ''Consult structure sheets'' \<or> str_includes page ''Specialty Landmark''
     \<or> str_includes page ''Take-Out Percentages'')"

text \<open>\<open>text.split(/-- \d+ of \d+ --/).filter(p => p.trim())\<close>, in both parsers.\<close>

definition splitPages :: "string \<Rightarrow> string list" where
  "splitPages text = filter (\<lambda>p. trim p \<noteq> []) (splitRe False re_page_break text)"

definition parseWSOP2025Schedule :: "string \<Rightarrow> int \<Rightarrow> tournament list" where
  "parseWSOP2025Schedule text year =
    concat (map (\<lambda>page. if isInfoPage page then [] else parsePage page year)
                (splitPages text))"

section \<open>Row pipeline (parseGenericSchedule)\<close>

definition re_days :: regex where
  "re_days = alts [Lits ''MON'', Lits ''TUES'', Lits ''WED'', Lits ''THURS'', Lits ''FRI'',
                   Lits ''SAT'', Lits ''SUN'']"

definition re_months :: regex where
  "re_months = alts [Lits ''JAN'', Lits ''FEB'', Lits ''MAR'', Lits ''APR'', Lits ''MAY'',
                     Lits ''JUN'', Lits ''JUL'', Lits ''AUG'', Lits ''SEP'', Lits ''OCT'',
                     Lits ''NOV'', Lits ''DEC'']"

definition MONTH_FULL :: "(string \<times> string) list" where
  "MONTH_FULL =
    [(''JAN'', ''January''), (''FEB'', ''February''), (''MAR'', ''March''), (''APR'', ''April''),
     (''MAY'', ''May''), (''JUN'', ''June''), (''JUL'', ''July''), (''AUG'', ''August''),
     (''SEP'', ''September''), (''OCT'', ''October''), (''NOV'', ''November''),
     (''DEC'', ''December'')]"

text \<open>All patterns of this pipeline carry the flag \<open>i\<close> unless said otherwise.\<close>

definition ROW_START_RE :: regex where
  "ROW_START_RE =
     seqs [Bol,
           Opt (Grp 1 (seqs [Many [Digit] 1 (Some 3), Opt (One (lits ''ABCDEFG'')), Plus [Space]])),
           Grp 2 re_days, Plus [Space], Grp 3 re_months, Plus [Space],
           Many [Digit] 1 (Some 2), WordB]"

definition KNOWN_VENUES :: "string list" where
  "KNOWN_VENUES =
    [''MGM NATIONAL HARBOR'', ''MGM GRAND'', ''WYNN'', ''ENCORE'', ''VENETIAN'',
     ''ARIA'', ''BELLAGIO'', ''RESORTS WORLD'', ''GOLDEN NUGGET'', ''SOUTH POINT'',
     ''ORLEANS'', ''HORSESHOE'', ''PARIS LAS VEGAS'', ''SEMINOLE HARD ROCK'',
     ''BORGATA'', ''FOXWOODS'', ''MOHEGAN SUN'', ''THUNDER VALLEY'',
     ''CHOCTAW'', ''BIKE'', ''COMMERCE'', ''HARD ROCK HOLLYWOOD'']"

definition FOOTER_RE :: regex where
  "FOOTER_RE =
     alts [Lits ''MUST BE 21+'', Lits ''PLEASE PLAY RESPONSIBLY'', Lits ''GAMBLER'',
           seqs [Lits ''GAMBLING'', Opt (Lits '' ''), Lits ''HELP''],
           Lits ''NO LONGER WITHHOLDS'', Lits ''AUTO-GRATUITY'', Lits ''OPTIONAL ADD-ON'',
           Lits ''STRUCTURE SHEETS FOR A COMPLETE'']"

subsection \<open>Header and metadata lines\<close>

definition headerFragments :: "regex list" where
  "headerFragments =
    [seqs [Bol, Lits ''event'', Eol], seqs [Bol, Lits ''#'', Star [Space], Lits ''day'', WordB],
     seqs [Bol, Lits ''entry'', Eol], seqs [Bol, Lits ''prize'', Eol],
     seqs [Bol, Lits ''pool'', Eol], seqs [Bol, Lits ''house'', Eol],
     seqs [Bol, Lits ''fee'', Eol], seqs [Bol, Lits ''opt'', Eol],
     seqs [Bol, Lits ''add-on'', WordB], seqs [Bol, Lits ''chips'', Eol],
     seqs [Bol, Lits ''levels'', Eol], seqs [Bol, Lits ''buy-in'', Eol],
     seqs [Bol, Lits ''total'', Eol]]"

definition re_hash_day :: regex where
  "re_hash_day = seqs [Bol, Lits ''#'', Star [Space], Lits ''Day'', One [Space]]"

definition isColumnHeaderLine :: "string \<Rightarrow> bool" where
  "isColumnHeaderLine line =
    (let lower = trim (toLowerCase line)
     in if rtest True ROW_START_RE line then False
        else if someTest headerFragments lower then True
        else if rtest True re_hash_day line \<and> rtest True (Lits ''Date'') line
                \<and> rtest True (Lits ''Time'') line then True
        else False)"

definition re_series_words :: regex where
  "re_series_words =
     alts [seqs [Bol, Many [Digit] 4 (Some 4), Plus [Space], Lits ''POTOMAC''],
           Lits ''POKER OPEN'', Lits ''WINTER'', Lits ''SUMMER'', Lits ''SPRING'',
           Lits ''CLASSIC'', Lits ''CHAMPIONSHIP'']"

definition re_month_name_start :: regex where
  "re_month_name_start =
     seqs [Bol,
           Grp 1 (alts [Lits ''JANUARY'', Lits ''FEBRUARY'', Lits ''MARCH'', Lits ''APRIL'',
                        Lits ''MAY'', Lits ''JUNE'', Lits ''JULY'', Lits ''AUGUST'',
                        Lits ''SEPTEMBER'', Lits ''OCTOBER'', Lits ''NOVEMBER'',
                        Lits ''DECEMBER'']),
           Plus [Space], One [Digit]]"

text \<open>\<open>new RegExp(`\\b${year}\\b`)\<close>, without the flag \<open>i\<close>.\<close>

definition re_this_year :: "jsnum \<Rightarrow> regex" where
  "re_this_year year = seqs [WordB, Lits (showNum year), WordB]"

fun someIncludes :: "string \<Rightarrow> string list \<Rightarrow> bool" where
  "someIncludes s [] = False"
| "someIncludes s (v # vs) = (if str_includes s v then True else someIncludes s vs)"

definition isMetadataLine :: "string \<Rightarrow> jsnum \<Rightarrow> bool" where
  "isMetadataLine line year =
    (if rtest True re_series_words line then True
     else if rtest True re_month_name_start line then True
     else if rtest False (re_this_year year) line \<and> \<not> rtest True ROW_START_RE line then True
     else if someIncludes (toUpperCase line) KNOWN_VENUES \<and> \<not> rtest True ROW_START_RE line
       then True
     else if rtest True (seqs [Bol, Lits ''PRESENTED BY'']) line then True
     else False)"

subsection \<open>Year and venue\<close>

definition re_year :: regex where
  "re_year =
     seqs [WordB, Grp 1 (alts [seqs [Lits ''202'', One [Digit]], seqs [Lits ''203'', One [Digit]]]),
           WordB]"

text \<open>
  \<open>detectYear\<close> falls back on \<open>new Date().getFullYear()\<close>: the year of the clock is the
  parameter \<open>now\<close>.
\<close>

definition detectYear :: "string \<Rightarrow> int \<Rightarrow> jsnum" where
  "detectYear text now =
    (case rexec False re_year (slice text 0 500) of
       None \<Rightarrow> Num now
     | Some m \<Rightarrow> parseInt (groupText m 1))"

definition VENUE_DISPLAY :: "(string \<times> string) list" where
  "VENUE_DISPLAY =
    [(''MGM NATIONAL HARBOR'', ''MGM National Harbor''), (''MGM GRAND'', ''MGM Grand''),
     (''WYNN'', ''Wynn Las Vegas''), (''ENCORE'', ''Wynn Las Vegas''),
     (''VENETIAN'', ''Venetian''), (''ARIA'', ''Aria''), (''BELLAGIO'', ''Bellagio''),
     (''RESORTS WORLD'', ''Resorts World''), (''GOLDEN NUGGET'', ''Golden Nugget''),
     (''SOUTH POINT'', ''South Point''), (''ORLEANS'', ''Orleans''),
     (''HORSESHOE'', ''Horseshoe / Paris Las Vegas''),
     (''PARIS LAS VEGAS'', ''Horseshoe / Paris Las Vegas''),
     (''SEMINOLE HARD ROCK'', ''Seminole Hard Rock''), (''BORGATA'', ''Borgata''),
     (''FOXWOODS'', ''Foxwoods''), (''MOHEGAN SUN'', ''Mohegan Sun''),
     (''THUNDER VALLEY'', ''Thunder Valley''), (''CHOCTAW'', ''Choctaw''),
     (''BIKE'', ''The Bicycle Casino''), (''COMMERCE'', ''Commerce Casino''),
     (''HARD ROCK HOLLYWOOD'', ''Hard Rock Hollywood'')]"

fun venueLoop :: "string \<Rightarrow> string list \<Rightarrow> string" where
  "venueLoop upper [] = ''Unknown Venue''"
| "venueLoop upper (v # vs) =
     (if str_includes upper v then strOr (map_of VENUE_DISPLAY v) v else venueLoop upper vs)"

definition detectVenue :: "string \<Rightarrow> string" where
  "detectVenue text = venueLoop (toUpperCase text) KNOWN_VENUES"

subsection \<open>Grouping lines into rows\<close>

text \<open>
  The loop of \<open>groupIntoRows\<close>, with the rows pushed so far and \<open>currentRow\<close> (\<open>None\<close>
  is \<open>null\<close>); lines before the first row start are dropped.
\<close>

fun groupLoop :: "string list \<Rightarrow> string list list \<Rightarrow> string list option \<Rightarrow> string list list" where
  "groupLoop [] rows currentRow =
     (case currentRow of None \<Rightarrow> rows | Some r \<Rightarrow> rows @ [r])"
| "groupLoop (line # lines) rows currentRow =
     (if rtest True ROW_START_RE line
      then groupLoop lines (case currentRow of None \<Rightarrow> rows | Some r \<Rightarrow> rows @ [r]) (Some [line])
      else case currentRow of
             None \<Rightarrow> groupLoop lines rows None
           | Some r \<Rightarrow> groupLoop lines rows (Some (r @ [line])))"

definition groupIntoRows :: "string list \<Rightarrow> string list list" where
  "groupIntoRows lines = groupLoop lines [] None"

subsection \<open>Fields of a row\<close>

definition re_tabs :: regex where
  "re_tabs = Plus [Lit (CHR 0x09)]"

definition re_evnum_first :: regex where
  "re_evnum_first =
     seqs [Bol, Grp 1 (seqs [Many [Digit] 1 (Some 3), Opt (One (lits ''ABCDEFG''))]),
           Plus [Space], Grp 2 re_days]"

definition re_date :: regex where
  "re_date =
     seqs [Grp 1 re_days, Plus [Space], Grp 2 re_months, Plus [Space],
           Grp 3 (Many [Digit] 1 (Some 2))]"

definition re_time :: regex where
  "re_time =
     seqs [WordB,
           Grp 1 (seqs [Many [Digit] 1 (Some 2),
                        Opt (seqs [Lits '':'', Many [Digit] 2 (Some 2)]),
                        Star [Space], alts [Lits ''AM'', Lits ''PM'']]),
           WordB]"

text \<open>\<open>/\$[\d,]+/g\<close>, and \<open>/[$,]/g\<close> that strips an amount to its digits.\<close>

definition re_dollar :: regex where
  "re_dollar = seqs [Lits ''$'', Plus [Digit, Lit (CHR '','')]]"

definition re_dollar_or_comma :: regex where
  "re_dollar_or_comma = One [Lit (CHR ''$''), Lit (CHR '','')]"

definition re_guaranteed_after :: regex where
  "re_guaranteed_after = seqs [Bol, Star [Space], Lits ''GUARANTEED'']"

text \<open>\<open>/,\s*$/\<close>, without the flag \<open>i\<close>.\<close>

definition re_comma_before :: regex where
  "re_comma_before = seqs [Lits '','', Star [Space], Eol]"

definition re_name_embedded :: regex where
  "re_name_embedded =
     seqs [Bol, Star [Space], Grp 1 (alts [Lits ''PER '', Lits ''REBUY'', Lits ''GUARANTEE''])]"

definition re_chips :: regex where
  "re_chips = seqs [WordB, Grp 1 (Plus [Digit]), Lits ''K'', WordB]"

text \<open>The next three are written without the flag \<open>i\<close>.\<close>

definition re_levels :: regex where
  "re_levels =
     seqs [WordB,
           Grp 1 (seqs [Many [Digit] 1 (Some 2),
                        Opt (seqs [Star [Space], Lits '','', Star [Space],
                                   Many [Digit] 1 (Some 2)])]),
           Star [Space], Eol]"

definition re_trailing_chips_levels :: regex where
  "re_trailing_chips_levels =
     seqs [Plus [Space], Plus [Digit], Lits ''K'', Plus [Space], Many [Digit] 1 (Some 2),
           Opt (seqs [Lits '','', Many [Digit] 1 (Some 2)]), Star [Space], Eol]"

definition re_trailing_chips :: regex where
  "re_trailing_chips = seqs [Plus [Space], Plus [Digit], Lits ''K'', Star [Space], Eol]"

definition re_edges :: regex where
  "re_edges =
     Alt (seqs [Bol, Plus [Space, Lit (CHR 0x09)]]) (seqs [Plus [Space, Lit (CHR 0x09)], Eol])"

definition re_restart :: regex where
  "re_restart = seqs [WordB, Lits ''RESTART'', WordB]"

definition re_final_table :: regex where
  "re_final_table = seqs [WordB, Lits ''FINAL TABLE'', WordB]"

definition re_satellite :: regex where
  "re_satellite = seqs [WordB, Lits ''SATELLITE'', WordB]"

definition re_super_sat :: regex where
  "re_super_sat = seqs [WordB, Lits ''SUPER SAT'']"

definition re_freeroll :: regex where
  "re_freeroll = seqs [WordB, Lits ''FREEROLL'', WordB]"

definition re_invite_only :: regex where
  "re_invite_only = seqs [WordB, Lits ''INVITE'', Star [Space], Lits ''ONLY'', WordB]"

definition re_guarantee :: regex where
  "re_guarantee =
     seqs [Lits ''$'', Grp 1 (Plus [Digit, Lit (CHR '','')]), Star [Space], Lits ''GUARANTEED'']"

definition re_multi_day :: regex where
  "re_multi_day = seqs [Lits ''('', Grp 1 (One [Digit]), Lits ''-DAY EVENT)'']"

definition re_sat_target :: regex where
  "re_sat_target =
     seqs [Lits ''EVENT'', Plus [Space], Grp 1 (Plus [Digit]), Plus [Space], Star [Dot],
           Lits ''SATELLITE'']"

definition re_main_event :: regex where
  "re_main_event = Lits ''MAIN EVENT''"

definition re_event_ref :: regex where
  "re_event_ref = seqs [Lits ''EVENT'', Plus [Space], Grp 1 (Plus [Digit])]"

text \<open>\<open>rowLines.join(' ').replace(/\t+/g, ' ').replace(/\s+/g, ' ').trim()\<close>.\<close>

definition joinedOf :: "string list \<Rightarrow> string" where
  "joinedOf rowLines =
    trim (replaceAll False re_spaces '' '' (replaceAll False re_tabs '' '' (join '' '' rowLines)))"

definition timeMatchOf :: "string \<Rightarrow> rmatched option" where
  "timeMatchOf joined = rexec True re_time joined"

definition timeEndIdx :: "string \<Rightarrow> nat" where
  "timeEndIdx joined = (case timeMatchOf joined of None \<Rightarrow> 0 | Some m \<Rightarrow> matchEnd m)"

text \<open>
  An entry of \<open>allDollars\<close> is the match itself: \<open>index\<close>, \<open>raw\<close> (the matched text) and
  \<open>value\<close>, which is \<open>dollarValue\<close>.
\<close>

definition dollarValue :: "rmatched \<Rightarrow> jsnum" where
  "dollarValue d = parseInt (replaceAll False re_dollar_or_comma [] (matched d))"

definition allDollars :: "string \<Rightarrow> rmatched list" where
  "allDollars joined = matchAll False re_dollar joined"

text \<open>
  The loop that sorts the amounts: an amount followed by GUARANTEED or standing after a
  comma belongs to the name; of the others, those after the time are column values.
\<close>

definition isNameDollar :: "string \<Rightarrow> rmatched \<Rightarrow> bool" where
  "isNameDollar joined d =
    (let afterText = slice joined (matchEnd d) (matchEnd d + 15);
         beforeText = slice joined (index d - 5) (index d)
     in rtest True re_guaranteed_after afterText \<or> rtest False re_comma_before beforeText)"

definition columnDollars :: "string \<Rightarrow> rmatched list" where
  "columnDollars joined =
    filter (\<lambda>d. \<not> isNameDollar joined d \<and> index d > timeEndIdx joined) (allDollars joined)"

definition filteredColumnDollars :: "string \<Rightarrow> rmatched list" where
  "filteredColumnDollars joined =
    filter (\<lambda>d. \<not> rtest True re_name_embedded (slice joined (matchEnd d) (matchEnd d + 20)))
           (columnDollars joined)"

text \<open>\<open>filteredColumnDollars[0] ? filteredColumnDollars[0].value : 0\<close>.\<close>

definition totalEntryOf :: "string \<Rightarrow> jsnum" where
  "totalEntryOf joined =
    (case nthOpt (filteredColumnDollars joined) 0 of None \<Rightarrow> Num 0 | Some d \<Rightarrow> dollarValue d)"

text \<open>\<open>filteredColumnDollars[k] ? filteredColumnDollars[k].value : null\<close>.\<close>

definition columnValue :: "string \<Rightarrow> nat \<Rightarrow> jsnum option" where
  "columnValue joined k = map_option dollarValue (nthOpt (filteredColumnDollars joined) k)"

text \<open>
  The event name as \<open>parseRow\<close> has it before the flags are read: the text between the
  time and the first column value or, without column values, the text after the time
  less trailing chips and levels; then the two clean-up steps.
\<close>

definition eventNameOf :: "string \<Rightarrow> string" where
  "eventNameOf joined =
    (let raw =
       (case timeMatchOf joined of
          None \<Rightarrow> []
        | Some tm \<Rightarrow>
           (case filteredColumnDollars joined of
              d # _ \<Rightarrow> trim (slice joined (matchEnd tm) (index d))
            | [] \<Rightarrow>
               trim (replaceFirst False re_trailing_chips []
                 (trim (replaceFirst False re_trailing_chips_levels []
                   (trim (drop (matchEnd tm) joined)))))));
         cleaned = trim (replaceAll False re_spaces '' ''
                     (replaceAll False (Lits [CHR 0x09]) '' '' raw))
     in replaceAll False re_edges [] cleaned)"

definition isRestartName :: "string \<Rightarrow> bool" where
  "isRestartName name =
    (rtest True re_restart name \<or> rtest True re_final_table name)"

definition isSatelliteName :: "string \<Rightarrow> bool" where
  "isSatelliteName name =
    (rtest True re_satellite name \<or> rtest True re_super_sat name)"

text \<open>The freeroll flag reads FREEROLL in the name and INVITE ONLY in the whole row.\<close>

definition isFreerollRow :: "string \<Rightarrow> bool" where
  "isFreerollRow joined =
    (rtest True re_freeroll (eventNameOf joined) \<or> rtest True re_invite_only joined)"

definition notesOf :: "string \<Rightarrow> string \<Rightarrow> string list" where
  "notesOf joined name =
    (case rexec True re_guarantee joined of
       None \<Rightarrow> []
     | Some m \<Rightarrow> [''$'' @ groupText m 1 @ '' Guaranteed''])
    @ (if rtest True (seqs [WordB, Lits ''BOUNTY'', WordB]) name then [''Bounty''] else [])
    @ (if rtest True (seqs [WordB, Lits ''FREEZEOUT'', WordB]) name
       then [''Freezeout''] else [])
    @ (if rtest True (seqs [WordB, Lits ''TURBO'', WordB]) name then [''Turbo''] else [])
    @ (case rexec True re_multi_day name of
         None \<Rightarrow> []
       | Some m \<Rightarrow> [groupText m 1 @ ''-Day Event''])
    @ (if rtest True (seqs [WordB, Lits ''SINGLE RE-ENTRY'', WordB]) name
       then [''Single Re-Entry''] else [])"

definition targetEventOf :: "string \<Rightarrow> string option" where
  "targetEventOf name =
    (if isSatelliteName name then
       (case rexec True re_sat_target name of
          Some m \<Rightarrow> Some (groupText m 1)
        | None \<Rightarrow> if rtest True re_main_event name then Some ''MAIN EVENT'' else None)
     else None)"

definition parentEventOf :: "string \<Rightarrow> string option" where
  "parentEventOf name =
    (if isRestartName name then
       (case rexec True re_event_ref name of
          Some m \<Rightarrow> Some (groupText m 1)
        | None \<Rightarrow> if rtest True re_main_event name then Some ''MAIN EVENT'' else None)
     else None)"

text \<open>\<open>let buyin = totalEntry; if (isRestart) buyin = 0; if (isFreeroll) buyin = 0;\<close>\<close>

definition buyinOf :: "string \<Rightarrow> jsnum" where
  "buyinOf joined =
    (if isFreerollRow joined then Num 0
     else if isRestartName (eventNameOf joined) then Num 0
     else totalEntryOf joined)"

text \<open>
  The rake of the row pipeline, computed when \<open>totalEntry > 0\<close> and the prize pool is
  there and positive (a comparison with \<open>NaN\<close> is false): the pair of \<open>rakePercent\<close> and
  \<open>rakeDollars\<close>.
\<close>

definition rowRake :: "jsnum \<Rightarrow> jsnum option \<Rightarrow> (rat \<times> int) option" where
  "rowRake totalEntry pool =
    (case (totalEntry, pool) of
       (Num te, Some (Num pp)) \<Rightarrow>
         if te > 0 \<and> pp > 0
         then Some (of_int (Math_round (of_int (te - pp) / of_int te * 1000)) / 10, te - pp)
         else None
     | _ \<Rightarrow> None)"

subsection \<open>cleanEventName\<close>

definition re_guarantee_text :: regex where
  "re_guarantee_text =
     seqs [Lits ''$'', Plus [Digit, Lit (CHR '','')], Star [Space], Lits ''GUARANTEED'',
           Star [Space]]"

definition re_trailing_quote :: regex where
  "re_trailing_quote = seqs [One [Lit (CHR 0x22), Lit (CHR 0x22)], Eol]"

definition re_invite_text :: regex where
  "re_invite_text =
     seqs [Star [Space], Lits ''INVITE'', Star [Space], Lits ''ONLY'', Star [Space]]"

definition cleanEventName :: "string \<Rightarrow> string" where
  "cleanEventName name =
    trim (replaceAll False re_spaces '' ''
      (replaceAll True re_invite_text []
        (replaceAll False re_trailing_quote []
          (replaceAll True re_guarantee_text [] name))))"

subsection \<open>parseRow\<close>

text \<open>
  \<open>rowLines[0].replace(...)\<close> raises a \<open>TypeError\<close> on an empty row; nothing else in the
  two parsers can raise. \<open>Inr None\<close> is the \<open>null\<close> returned for a row without a date.
\<close>

datatype error = TypeError

definition parseRow :: "string list \<Rightarrow> jsnum \<Rightarrow> string \<Rightarrow> error + tournament option" where
  "parseRow rowLines year venue' =
    (case rowLines of
       [] \<Rightarrow> Inl TypeError
     | first # _ \<Rightarrow>
        (let joined = joinedOf rowLines;
             firstLine = replaceAll False re_tabs '' '' first;
             evNum = (case rexec True re_evnum_first firstLine of
                        None \<Rightarrow> []
                      | Some m \<Rightarrow> groupText m 1)
         in case rexec True re_date joined of
              None \<Rightarrow> Inr None
            | Some dateMatch \<Rightarrow>
               (let monthAbbr = toUpperCase (groupText dateMatch 2);
                    day = parseInt (groupText dateMatch 3);
                    fullMonth = strOr (map_of MONTH_FULL monthAbbr) monthAbbr;
                    dateStr = fullMonth @ '' '' @ showNum day @ '', '' @ showNum year;
                    name = eventNameOf joined;
                    noteList = notesOf joined name;
                    rk = rowRake (totalEntryOf joined) (columnValue joined 1)
                in Inr (Some
                     \<lparr>eventNumber = Some evNum,
                      eventName = cleanEventName name,
                      date = dateStr,
                      time = (case timeMatchOf joined of
                                None \<Rightarrow> ''TBD''
                              | Some tm \<Rightarrow>
                                  toUpperCase (replaceAll False re_spaces [] (groupText tm 1))),
                      buyin = buyinOf joined,
                      prizePool = columnValue joined 1,
                      houseFee = columnValue joined 2,
                      optAddOn = columnValue joined 3,
                      rakePct = map_option fst rk,
                      rakeDollars = map_option snd rk,
                      startingChips =
                        (case rexec True re_chips joined of
                           None \<Rightarrow> None
                         | Some m \<Rightarrow>
                            (case parseInt (groupText m 1) of
                               NaN \<Rightarrow> None | Num c \<Rightarrow> Some (c * 1000))),
                      levelDuration =
                        (case rexec False re_levels joined of
                           None \<Rightarrow> []
                         | Some m \<Rightarrow> replaceAll False (One [Space]) [] (groupText m 1)),
                      reentry = None,
                      lateReg = None,
                      gameVariant = classifyGameVariant name,
                      venue = venue',
                      notes' = (if noteList = [] then None else Some (join '', '' noteList)),
                      isSatellite = isSatelliteName name,
                      isRestart = isRestartName name,
                      targetEvent = targetEventOf name,
                      parentEvent = parentEventOf name\<rparr>))))"

subsection \<open>Linking restarts to parents\<close>

definition re_flight_letter :: regex where
  "re_flight_letter = seqs [One (lits ''ABCDEFG''), Eol]"

text \<open>
  \<open>eventMap\<close> as the list of its entries in insertion order: the first record that is
  not a restart, per base event number.
\<close>

fun buildEventMap :: "tournament list \<Rightarrow> (string \<times> tournament) list \<Rightarrow> (string \<times> tournament) list" where
  "buildEventMap [] m = m"
| "buildEventMap (t # ts) m =
     (case eventNumber t of
        None \<Rightarrow> buildEventMap ts m
      | Some n \<Rightarrow>
         if n \<noteq> [] \<and> \<not> isRestart t then
           (let base = replaceFirst True re_flight_letter [] n
            in if map_of m base = None then buildEventMap ts (m @ [(base, t)])
               else buildEventMap ts m)
         else buildEventMap ts m)"

text \<open>
  \<open>Object.entries\<close> lists the keys that are canonical integers in ascending numeric
  order, then the other keys (here: digits with a leading zero) in insertion order.
\<close>

definition isIndexKey :: "string \<Rightarrow> bool" where
  "isIndexKey k = (k \<noteq> [] \<and> list_all isDigit k \<and> (k = ''0'' \<or> hd k \<noteq> CHR ''0''))"

definition keyValue :: "string \<Rightarrow> int" where
  "keyValue k = (case parseInt k of NaN \<Rightarrow> 0 | Num n \<Rightarrow> n)"

definition objectEntries :: "(string \<times> 'a) list \<Rightarrow> (string \<times> 'a) list" where
  "objectEntries m =
    sort_key (\<lambda>kv. keyValue (fst kv)) (filter (\<lambda>kv. isIndexKey (fst kv)) m)
    @ filter (\<lambda>kv. \<not> isIndexKey (fst kv)) m"

fun findParent :: "string \<Rightarrow> string list \<Rightarrow> string option" where
  "findParent name [] = None"
| "findParent name (num # nums) =
     (if str_includes name (''EVENT '' @ num @ '' '')
         \<or> str_includes name (''EVENT '' @ num @ [CHR 0x09])
      then Some num else findParent name nums)"

definition linkOne :: "string list \<Rightarrow> tournament \<Rightarrow> tournament" where
  "linkOne nums t =
    (if isRestart t \<and> (parentEvent t = None \<or> parentEvent t = Some [])
     then (case findParent (eventName t) nums of
             None \<Rightarrow> t
           | Some num \<Rightarrow> t\<lparr>parentEvent := Some num\<rparr>)
     else t)"

definition linkRestartsToParents :: "tournament list \<Rightarrow> tournament list" where
  "linkRestartsToParents ts =
    map (linkOne (map fst (objectEntries (buildEventMap ts [])))) ts"

subsection \<open>parseGenericSchedule\<close>

text \<open>
  One turn of the loop over the lines of a page: \<open>pageHeaderDone\<close> and \<open>dataLines\<close>.
\<close>

definition lineStep :: "jsnum \<Rightarrow> bool \<times> string list \<Rightarrow> string \<Rightarrow> bool \<times> string list" where
  "lineStep year st rawLine =
    (let line = trim rawLine; pageHeaderDone = fst st; dataLines = snd st
     in if line = [] then st
        else if rtest True FOOTER_RE line then st
        else if isColumnHeaderLine line then (True, dataLines)
        else if \<not> pageHeaderDone then
          (if isMetadataLine line year then st
           else if rtest True ROW_START_RE line then (True, dataLines @ [line])
           else st)
        else (pageHeaderDone, dataLines @ [line]))"

definition pageStep :: "jsnum \<Rightarrow> string list \<Rightarrow> string \<Rightarrow> string list" where
  "pageStep year dataLines page =
    snd (foldl (lineStep year) (False, dataLines) (splitOn (CHR 0x0A) page))"

fun parseRows :: "string list list \<Rightarrow> jsnum \<Rightarrow> string \<Rightarrow> error + tournament list" where
  "parseRows [] year venue' = Inr []"
| "parseRows (row # rows) year venue' =
     (case parseRow row year venue' of
        Inl e \<Rightarrow> Inl e
      | Inr parsed \<Rightarrow>
         (case parseRows rows year venue' of
            Inl e \<Rightarrow> Inl e
          | Inr ts \<Rightarrow> Inr (case parsed of None \<Rightarrow> ts | Some t \<Rightarrow> t # ts)))"

text \<open>
  \<open>parseGenericSchedule(text, options)\<close> with \<open>options.venue\<close> as \<open>venueOpt\<close> and the year
  of the clock as \<open>now\<close>. The series name that the source detects is never used.
\<close>

definition parseGenericSchedule :: "string \<Rightarrow> string option \<Rightarrow> int \<Rightarrow> error + tournament list" where
  "parseGenericSchedule text venueOpt now =
    (let pages = splitPages text;
         allText = join [CHR 0x0A] pages;
         year = detectYear allText now;
         venue' = (case venueOpt of
                     None \<Rightarrow> detectVenue allText
                   | Some v \<Rightarrow> if v = [] then detectVenue allText else v);
         dataLines = foldl (pageStep year) [] pages;
         rows = groupIntoRows dataLines
     in case parseRows rows year venue' of
          Inl e \<Rightarrow> Inl e
        | Inr tournaments \<Rightarrow> Inr (linkRestartsToParents tournaments))"

definition detectFormat :: "string \<Rightarrow> string" where
  "detectFormat pdfText =
    (if str_includes pdfText ''EV#'' \<and> str_includes pdfText ''LVL''
        \<and> (str_includes pdfText ''RE-ENTRY'' \<or> str_includes pdfText ''LATE'')
     then ''wsop''
     else if rtest True ROW_START_RE pdfText then ''generic''
     else ''generic'')"

section \<open>Auxiliary notions for the properties\<close>

text \<open>How the rake fields of a record of the row pipeline hang together.\<close>

definition rake_fields_row :: "tournament \<Rightarrow> bool" where
  "rake_fields_row t =
    ((rakePct t = None) = (rakeDollars t = None)
     \<and> (rakePct t = None \<or> prizePool t \<noteq> None)
     \<and> (optAddOn t = None \<or> houseFee t \<noteq> None)
     \<and> (houseFee t = None \<or> prizePool t \<noteq> None))"

text \<open>
  The year and the rows that \<open>parseGenericSchedule\<close> works with, as functions of the text
  and of the clock.
\<close>

definition scheduleYear :: "string \<Rightarrow> int \<Rightarrow> jsnum" where
  "scheduleYear text now = detectYear (join [CHR 0x0A] (splitPages text)) now"

definition dataRows :: "string \<Rightarrow> int \<Rightarrow> string list list" where
  "dataRows text now =
    groupIntoRows (foldl (pageStep (scheduleYear text now)) [] (splitPages text))"

section \<open>Example inputs\<close>

text \<open>A page of the columnar format with two event-number tokens and one buy-in.\<close>

definition page_two_tokens :: string where
  "page_two_tokens = join [CHR 0x0A] [''BUY-IN'', ''$500'', ''EV#'', ''59'', ''7'']"

text \<open>Rows of the row format.\<close>

definition row_main_event_restart :: "string list" where
  "row_main_event_restart =
     [''SAT JUL 4 12PM NLH MAIN EVENT DAY 2 RESTART $10,000 $9,300 20K 60'']"


definition row_two_amounts :: "string list" where
  "row_two_amounts = [''MON JAN 5 10AM NLH $600 $505'']"

definition row_freeroll :: "string list" where
  "row_freeroll = [''MON JAN 5 10AM MEDIA FREEROLL $100 $90'']"


definition schedule_no_year :: string where
  "schedule_no_year = ''MON JAN 5 10AM NLH $600 $505''"


section \<open>Properties of the rake engine\<close>


lemma table_adds_up: "list_all tier_adds_up (map snd WSOP_RAKE_BY_BUYIN)"
  by (simp add: WSOP_RAKE_BY_BUYIN_def tier_adds_up_def mkTier_def)

lemma overrides_add_up: "list_all tier_adds_up (map snd WSOP_RAKE_OVERRIDES)"
  by (simp add: WSOP_RAKE_OVERRIDES_def tier_adds_up_def mkTier_def)

lemma map_of_adds_up:
  assumes "list_all tier_adds_up (map snd kvs)" and "map_of kvs k = Some t"
  shows "tier_adds_up t"
proof -
  from assms(2) have "(k, t) \<in> set kvs" by (rule map_of_SomeD)
  moreover from assms(1) have "\<forall>p \<in> set kvs. tier_adds_up (snd p)"
    by (simp add: list_all_iff)
  ultimately show ?thesis by force
qed

lemma bestTierLoop_cases:
  "bestTierLoop ts bi best = best \<or> (\<exists>k \<in> set ts. bestTierLoop ts bi best = Some k)"
proof (induction ts arbitrary: best)
  case Nil
  show ?case by simp
next
  case (Cons t ts)
  from Cons.IH [of "Some t"] show ?case by auto
qed

lemma key_has_tier:
  assumes "k \<in> set (map fst kvs)"
  shows "\<exists>t. map_of kvs k = Some t"
proof (cases "map_of kvs k")
  case None
  then have "k \<notin> fst ` set kvs" by (simp add: map_of_eq_None_iff)
  with assms show ?thesis by simp
next
  case (Some t)
  then show ?thesis by blast
qed

lemma tiers_nonempty: "sort (map fst WSOP_RAKE_BY_BUYIN) \<noteq> []"
proof
  assume "sort (map fst WSOP_RAKE_BY_BUYIN) = []"
  then have "length (sort (map fst WSOP_RAKE_BY_BUYIN)) = 0" by simp
  then have "WSOP_RAKE_BY_BUYIN = []" by simp
  then show False by (simp add: WSOP_RAKE_BY_BUYIN_def)
qed


lemma getWSOPRake_override:
  "overrideFor ev = Some ov \<Longrightarrow> getWSOPRake bi ev = tierRake ov bi"
  by (simp add: getWSOPRake_def)

lemma getWSOPRake_exact:
  "overrideFor ev = None \<Longrightarrow> map_of WSOP_RAKE_BY_BUYIN bi = Some t \<Longrightarrow>
   getWSOPRake bi ev = tierRake t bi"
  by (simp add: getWSOPRake_def)

lemma getWSOPRake_fallback:
  assumes "overrideFor ev = None" and "map_of WSOP_RAKE_BY_BUYIN bi = None"
    and "(case bestTierLoop (sort (map fst WSOP_RAKE_BY_BUYIN)) bi None of
            None \<Rightarrow> Some (hd (sort (map fst WSOP_RAKE_BY_BUYIN))) | Some b \<Rightarrow> Some b) = Some k"
    and "map_of WSOP_RAKE_BY_BUYIN k = Some t"
  shows "getWSOPRake bi ev = tierRake t bi"
proof -
  have "getWSOPRake bi ev =
    (let tiers = sort (map fst WSOP_RAKE_BY_BUYIN);
         bestTier = bestTierLoop tiers bi None;
         bestTier' = (if bestTier = None \<and> tiers \<noteq> [] then Some (hd tiers) else bestTier)
     in case bestTier' of
          None \<Rightarrow> nullRake
        | Some b \<Rightarrow>
           (case map_of WSOP_RAKE_BY_BUYIN b of
              Some t \<Rightarrow> tierRake t bi
            | None \<Rightarrow> nullRake))"
    unfolding getWSOPRake_def using assms(1,2) by simp
  also have "\<dots> = tierRake t bi"
    unfolding Let_def using assms(3,4) tiers_nonempty
    by (cases "bestTierLoop (sort (map fst WSOP_RAKE_BY_BUYIN)) bi None") simp_all
  finally show ?thesis .
qed

lemma getWSOPRake_resolves:
  "\<exists>t. tier_adds_up t \<and> getWSOPRake bi ev = tierRake t bi"
proof (cases "overrideFor ev")
  case (Some ov)
  then have "\<exists>e. map_of WSOP_RAKE_OVERRIDES e = Some ov"
    unfolding overrideFor_def by (cases ev) (auto split: if_splits)
  then obtain e where "map_of WSOP_RAKE_OVERRIDES e = Some ov" ..
  then have "tier_adds_up ov" by (rule map_of_adds_up [OF overrides_add_up])
  moreover have "getWSOPRake bi ev = tierRake ov bi"
    using Some by (rule getWSOPRake_override)
  ultimately show ?thesis by blast
next
  case None
  note noOv = None
  show ?thesis
  proof (cases "map_of WSOP_RAKE_BY_BUYIN bi")
    case (Some t)
    then have "tier_adds_up t" by (rule map_of_adds_up [OF table_adds_up])
    moreover have "getWSOPRake bi ev = tierRake t bi"
      using noOv Some by (rule getWSOPRake_exact)
    ultimately show ?thesis by blast
  next
    case None
    define tiers where "tiers = sort (map fst WSOP_RAKE_BY_BUYIN)"
    define best where "best = bestTierLoop tiers bi None"
    have ne: "tiers \<noteq> []" unfolding tiers_def by (rule tiers_nonempty)
    have "best = None \<or> (\<exists>k \<in> set tiers. best = Some k)"
      unfolding best_def by (rule bestTierLoop_cases)
    with ne have "\<exists>k \<in> set tiers. (case best of None \<Rightarrow> Some (hd tiers) | Some b \<Rightarrow> Some b) = Some k"
      by (cases best) simp_all
    then obtain k where k: "k \<in> set tiers"
      "(case best of None \<Rightarrow> Some (hd tiers) | Some b \<Rightarrow> Some b) = Some k" by blast
    from k(1) have "k \<in> set (map fst WSOP_RAKE_BY_BUYIN)" by (simp add: tiers_def)
    then have "\<exists>t. map_of WSOP_RAKE_BY_BUYIN k = Some t"
      by (rule key_has_tier)
    then obtain t where t: "map_of WSOP_RAKE_BY_BUYIN k = Some t" ..
    then have "tier_adds_up t" by (rule map_of_adds_up [OF table_adds_up])
    moreover have "getWSOPRake bi ev = tierRake t bi"
      using noOv None k(2) [unfolded best_def tiers_def] t by (rule getWSOPRake_fallback)
    ultimately show ?thesis by blast
  qed
qed



lemma bestTierLoop_above:
  "\<forall>x \<in> set ts. bi < x \<Longrightarrow> bestTierLoop ts bi best = best"
  by (cases ts) simp_all

lemma bestTierLoop_highest:
  assumes "sorted ts" and "k \<in> set ts \<or> best = Some k" and "k \<le> bi"
    and "\<forall>x \<in> set ts. x \<le> bi \<longrightarrow> x \<le> k"
    and "\<forall>x \<in> set ts. k \<in> set ts \<or> k \<le> x"
  shows "bestTierLoop ts bi best = Some k"
  using assms
proof (induction ts arbitrary: best)
  case Nil
  then show ?case by simp
next
  case (Cons t ts)
  show ?case
  proof (cases "t \<le> bi")
    case False
    with Cons.prems(1) have "\<forall>x \<in> set (t # ts). bi < x" by auto
    with Cons.prems(2,3) have "best = Some k" by auto
    with False show ?thesis by simp
  next
    case True
    with Cons.prems(4) have tk: "t \<le> k" by simp
    have "bestTierLoop ts bi (Some t) = Some k"
    proof (cases "k \<in> set ts")
      case True
      with Cons.prems show ?thesis by (intro Cons.IH) auto
    next
      case False
      with Cons.prems(5) have "k \<le> t \<or> k = t" by auto
      with tk have kt: "k = t" by auto
      show ?thesis
      proof (intro Cons.IH)
        show "sorted ts" using Cons.prems(1) by simp
        show "k \<in> set ts \<or> Some t = Some k" using kt by simp
        show "k \<le> bi" by (rule Cons.prems(3))
        show "\<forall>x\<in>set ts. x \<le> bi \<longrightarrow> x \<le> k" using Cons.prems(4) by simp
        show "\<forall>x\<in>set ts. k \<in> set ts \<or> k \<le> x" using Cons.prems(1) kt by auto
      qed
    qed
    with True show ?thesis by simp
  qed
qed

lemma sorted_hd_least:
  assumes "sorted ys" and "y \<in> set ys"
  shows "hd ys \<le> (y::int)"
  using assms by (cases ys) auto

lemma table_key_iff:
  "(\<exists>t. map_of WSOP_RAKE_BY_BUYIN k = Some t) \<longleftrightarrow> k \<in> set (sort (map fst WSOP_RAKE_BY_BUYIN))"
proof
  assume "\<exists>t. map_of WSOP_RAKE_BY_BUYIN k = Some t"
  then obtain t where "map_of WSOP_RAKE_BY_BUYIN k = Some t" ..
  then have "(k, t) \<in> set WSOP_RAKE_BY_BUYIN" by (rule map_of_SomeD)
  then have "k \<in> fst ` set WSOP_RAKE_BY_BUYIN" by force
  then show "k \<in> set (sort (map fst WSOP_RAKE_BY_BUYIN))" by simp
next
  assume "k \<in> set (sort (map fst WSOP_RAKE_BY_BUYIN))"
  then have "k \<in> set (map fst WSOP_RAKE_BY_BUYIN)" by simp
  then show "\<exists>t. map_of WSOP_RAKE_BY_BUYIN k = Some t" by (rule key_has_tier)
qed

lemma getWSOPRake_highest:
  assumes noOv: "overrideFor ev = None" and noEx: "map_of WSOP_RAKE_BY_BUYIN b = None"
    and kt: "map_of WSOP_RAKE_BY_BUYIN k = Some t" and kb: "k \<le> b"
    and hi: "\<forall>k' t'. map_of WSOP_RAKE_BY_BUYIN k' = Some t' \<and> k' \<le> b \<longrightarrow> k' \<le> k"
  shows "getWSOPRake b ev = tierRake t b"
proof -
  define tiers where "tiers = sort (map fst WSOP_RAKE_BY_BUYIN)"
  have mem: "k \<in> set tiers" unfolding tiers_def using kt table_key_iff by blast
  have "\<forall>x \<in> set tiers. x \<le> b \<longrightarrow> x \<le> k"
  proof (intro ballI impI)
    fix x assume "x \<in> set tiers" and xb: "x \<le> b"
    then have "\<exists>t'. map_of WSOP_RAKE_BY_BUYIN x = Some t'"
      unfolding tiers_def using table_key_iff by blast
    with xb hi show "x \<le> k" by blast
  qed
  moreover have "sorted tiers" unfolding tiers_def by simp
  ultimately have "bestTierLoop tiers b None = Some k"
    using mem kb by (intro bestTierLoop_highest) auto
  then have "(case bestTierLoop (sort (map fst WSOP_RAKE_BY_BUYIN)) b None of
            None \<Rightarrow> Some (hd (sort (map fst WSOP_RAKE_BY_BUYIN))) | Some x \<Rightarrow> Some x) = Some k"
    unfolding tiers_def by simp
  with noOv noEx show ?thesis using kt by (rule getWSOPRake_fallback)
qed

lemma getWSOPRake_lowest:
  assumes noOv: "overrideFor ev = None"
    and below: "\<forall>k' t'. map_of WSOP_RAKE_BY_BUYIN k' = Some t' \<longrightarrow> b < k'"
    and kt: "map_of WSOP_RAKE_BY_BUYIN k = Some t"
    and lo: "\<forall>k' t'. map_of WSOP_RAKE_BY_BUYIN k' = Some t' \<longrightarrow> k \<le> k'"
  shows "getWSOPRake b ev = tierRake t b"
proof -
  define tiers where "tiers = sort (map fst WSOP_RAKE_BY_BUYIN)"
  have keys: "x \<in> set tiers \<longleftrightarrow> (\<exists>t'. map_of WSOP_RAKE_BY_BUYIN x = Some t')" for x
    unfolding tiers_def using table_key_iff [of x] by simp
  have noEx: "map_of WSOP_RAKE_BY_BUYIN b = None"
  proof (cases "map_of WSOP_RAKE_BY_BUYIN b")
    case (Some t')
    with below have "b < b" by blast
    then show ?thesis by simp
  qed simp
  have "\<forall>x \<in> set tiers. b < x" using keys below by blast
  then have none: "bestTierLoop tiers b None = None" by (rule bestTierLoop_above)
  have srt: "sorted tiers" unfolding tiers_def by simp
  have mem: "k \<in> set tiers" using keys kt by blast
  then have "tiers \<noteq> []" by auto
  then have "hd tiers \<in> set tiers" by simp
  then have "k \<le> hd tiers" using keys lo by blast
  moreover have "hd tiers \<le> k" using srt mem by (rule sorted_hd_least)
  ultimately have "hd tiers = k" by simp
  with none have "(case bestTierLoop (sort (map fst WSOP_RAKE_BY_BUYIN)) b None of
            None \<Rightarrow> Some (hd (sort (map fst WSOP_RAKE_BY_BUYIN))) | Some x \<Rightarrow> Some x) = Some k"
    unfolding tiers_def by simp
  with noOv noEx show ?thesis using kt by (rule getWSOPRake_fallback)
qed


text \<open>
  Claim C4. \<open>getWSOPRake\<close> resolves the tier in this order: the override of the event
  number first; then the tier whose key is the buy-in; then the tier with the highest key
  not above the buy-in; and, for a buy-in below every key, the tier with the lowest key.
  Buy-in 500 with event number 59 gives rake dollars 50 and prize pool 450 (the override),
  buy-in 500 without event number gives 85 and 415, and buy-in 275 gives the percentages
  of the 300 tier applied to 275.
\<close>

theorem getWSOPRake_lookup_order:
  "(overrideFor ev = Some t \<longrightarrow> getWSOPRake b ev = tierRake t b)
   \<and> (overrideFor ev = None \<and> map_of WSOP_RAKE_BY_BUYIN b = Some t
        \<longrightarrow> getWSOPRake b ev = tierRake t b)
   \<and> (overrideFor ev = None \<and> map_of WSOP_RAKE_BY_BUYIN b = None
        \<and> map_of WSOP_RAKE_BY_BUYIN k = Some t \<and> k \<le> b
        \<and> (\<forall>k' t'. map_of WSOP_RAKE_BY_BUYIN k' = Some t' \<and> k' \<le> b \<longrightarrow> k' \<le> k)
        \<longrightarrow> getWSOPRake b ev = tierRake t b)
   \<and> (overrideFor ev = None
        \<and> (\<forall>k' t'. map_of WSOP_RAKE_BY_BUYIN k' = Some t' \<longrightarrow> b < k')
        \<and> map_of WSOP_RAKE_BY_BUYIN k = Some t
        \<and> (\<forall>k' t'. map_of WSOP_RAKE_BY_BUYIN k' = Some t' \<longrightarrow> k \<le> k')
        \<longrightarrow> getWSOPRake b ev = tierRake t b)
   \<and> overrideFor (Some ''59'') = Some (mkTier 7.0 3.0 10.0)
   \<and> rake.rakeDollars (getWSOPRake 500 (Some ''59'')) = Some 50
   \<and> rake.prizePool (getWSOPRake 500 (Some ''59'')) = Some 450
   \<and> rake.rakeDollars (getWSOPRake 500 None) = Some 85
   \<and> rake.prizePool (getWSOPRake 500 None) = Some 415
   \<and> map_of WSOP_RAKE_BY_BUYIN 300 = Some (mkTier 12.6 5.4 18.0)
   \<and> getWSOPRake 275 None = tierRake (mkTier 12.6 5.4 18.0) 275
   \<and> getWSOPRake 275 None =
        \<lparr>rake.rakePct = Some 18.0, rake.rakeDollars = Some 50, rake.prizePool = Some 225,
         rake.houseFee = Some 35, rake.optAddOn = Some 15\<rparr>"
proof (intro conjI impI)
  show "getWSOPRake b ev = tierRake t b" if "overrideFor ev = Some t"
    using that by (rule getWSOPRake_override)
  show "getWSOPRake b ev = tierRake t b"
    if "overrideFor ev = None \<and> map_of WSOP_RAKE_BY_BUYIN b = Some t"
    using that by (simp add: getWSOPRake_exact)
  show "getWSOPRake b ev = tierRake t b"
    if "overrideFor ev = None \<and> map_of WSOP_RAKE_BY_BUYIN b = None
        \<and> map_of WSOP_RAKE_BY_BUYIN k = Some t \<and> k \<le> b
        \<and> (\<forall>k' t'. map_of WSOP_RAKE_BY_BUYIN k' = Some t' \<and> k' \<le> b \<longrightarrow> k' \<le> k)"
    using that by (intro getWSOPRake_highest [of ev b k t]) simp_all
  show "getWSOPRake b ev = tierRake t b"
    if "overrideFor ev = None
        \<and> (\<forall>k' t'. map_of WSOP_RAKE_BY_BUYIN k' = Some t' \<longrightarrow> b < k')
        \<and> map_of WSOP_RAKE_BY_BUYIN k = Some t
        \<and> (\<forall>k' t'. map_of WSOP_RAKE_BY_BUYIN k' = Some t' \<longrightarrow> k \<le> k')"
    using that by (intro getWSOPRake_lowest [of ev b k t]) simp_all
  show "overrideFor (Some ''59'') = Some (mkTier 7.0 3.0 10.0)" by code_simp
  show "rake.rakeDollars (getWSOPRake 500 (Some ''59'')) = Some 50" by code_simp
  show "rake.prizePool (getWSOPRake 500 (Some ''59'')) = Some 450" by code_simp
  show "rake.rakeDollars (getWSOPRake 500 None) = Some 85" by code_simp
  show "rake.prizePool (getWSOPRake 500 None) = Some 415" by code_simp
  show "map_of WSOP_RAKE_BY_BUYIN 300 = Some (mkTier 12.6 5.4 18.0)" by code_simp
  show "getWSOPRake 275 None = tierRake (mkTier 12.6 5.4 18.0) 275" by code_simp
  show "getWSOPRake 275 None =
        \<lparr>rake.rakePct = Some 18.0, rake.rakeDollars = Some 50, rake.prizePool = Some 225,
         rake.houseFee = Some 35, rake.optAddOn = Some 15\<rparr>" by code_simp
qed

text \<open>
  The four ways of resolving a tier at concrete inputs: event 59 at 500 (override), 500
  (exact key), 520 (highest key not above: 500) and 275 (below every key: 300).
\<close>

theorem getWSOPRake_lookup_order_witness:
  "getWSOPRake 500 (Some ''59'') = tierRake (mkTier 7.0 3.0 10.0) 500
   \<and> getWSOPRake 500 (Some ''58'') = tierRake (mkTier 11.9 5.1 17.0) 500
   \<and> getWSOPRake 520 None = tierRake (mkTier 11.9 5.1 17.0) 520
   \<and> getWSOPRake 275 None = tierRake (mkTier 12.6 5.4 18.0) 275"
proof (intro conjI)
  have ov: "overrideFor (Some ''59'') = Some (mkTier 7.0 3.0 10.0)" by code_simp
  have no58: "overrideFor (Some ''58'') = None" by code_simp
  have noNone: "overrideFor None = None" by code_simp
  have t500: "map_of WSOP_RAKE_BY_BUYIN 500 = Some (mkTier 11.9 5.1 17.0)" by code_simp
  have t300: "map_of WSOP_RAKE_BY_BUYIN 300 = Some (mkTier 12.6 5.4 18.0)" by code_simp
  have n520: "map_of WSOP_RAKE_BY_BUYIN 520 = None" by code_simp
  have hi: "\<forall>k' t'. map_of WSOP_RAKE_BY_BUYIN k' = Some t' \<and> k' \<le> 520 \<longrightarrow> k' \<le> 500"
    by (simp add: WSOP_RAKE_BY_BUYIN_def split: if_splits)
  have below: "\<forall>k' t'. map_of WSOP_RAKE_BY_BUYIN k' = Some t' \<longrightarrow> 275 < k'"
    by (simp add: WSOP_RAKE_BY_BUYIN_def split: if_splits)
  have lo: "\<forall>k' t'. map_of WSOP_RAKE_BY_BUYIN k' = Some t' \<longrightarrow> 300 \<le> k'"
    by (simp add: WSOP_RAKE_BY_BUYIN_def split: if_splits)
  show "getWSOPRake 500 (Some ''59'') = tierRake (mkTier 7.0 3.0 10.0) 500"
    using getWSOPRake_lookup_order [of "Some ''59''" "mkTier 7.0 3.0 10.0" 500] ov by blast
  show "getWSOPRake 500 (Some ''58'') = tierRake (mkTier 11.9 5.1 17.0) 500"
    using getWSOPRake_lookup_order [of "Some ''58''" "mkTier 11.9 5.1 17.0" 500] no58 t500
    by blast
  show "getWSOPRake 520 None = tierRake (mkTier 11.9 5.1 17.0) 520"
    using getWSOPRake_lookup_order [of None "mkTier 11.9 5.1 17.0" 520 500] noNone n520 t500 hi
    by simp
  show "getWSOPRake 275 None = tierRake (mkTier 12.6 5.4 18.0) 275"
    using getWSOPRake_lookup_order [of None "mkTier 12.6 5.4 18.0" 275 300] noNone t300 below lo
    by simp
qed

section \<open>Properties of the classifier\<close>

lemma variantOf_label: "variantOf lower \<in> set variantLabels"
  by (simp add: variantOf_def variantLabels_def)

lemma classifyGameVariant_label: "classifyGameVariant name \<in> set variantLabels"
  unfolding classifyGameVariant_def by (rule variantOf_label)

text \<open>
  Claim C3, as the code has it. Every label that \<open>classifyGameVariant\<close> can return is
  classified as itself, except \<open>7-Card Stud\<close>: the classifier looks for the words
  "seven card stud", which the label does not contain, and returns the default \<open>NLHE\<close>.
\<close>

theorem classifyGameVariant_labels_fixed:
  "classifyGameVariant name \<in> set variantLabels
   \<and> classifyGameVariant ''Dealers Choice'' = ''Dealers Choice''
   \<and> classifyGameVariant ''Mixed Games'' = ''Mixed Games''
   \<and> classifyGameVariant ''H.O.R.S.E.'' = ''H.O.R.S.E.''
   \<and> classifyGameVariant ''T.O.R.S.E.'' = ''T.O.R.S.E.''
   \<and> classifyGameVariant ''PLO'' = ''PLO''
   \<and> classifyGameVariant ''PLO Hi-Lo'' = ''PLO Hi-Lo''
   \<and> classifyGameVariant ''5-Card PLO'' = ''5-Card PLO''
   \<and> classifyGameVariant ''Big O'' = ''Big O''
   \<and> classifyGameVariant ''Omaha Hi-Lo'' = ''Omaha Hi-Lo''
   \<and> classifyGameVariant ''2-7 Triple Draw'' = ''2-7 Triple Draw''
   \<and> classifyGameVariant ''2-7 Lowball'' = ''2-7 Lowball''
   \<and> classifyGameVariant ''Stud Hi-Lo'' = ''Stud Hi-Lo''
   \<and> classifyGameVariant ''Razz'' = ''Razz''
   \<and> classifyGameVariant ''Badugi'' = ''Badugi''
   \<and> classifyGameVariant ''Limit Holdem'' = ''Limit Holdem''
   \<and> classifyGameVariant ''NLHE'' = ''NLHE''
   \<and> classifyGameVariant ''7-Card Stud'' = ''NLHE''"
proof (intro conjI)
  show "classifyGameVariant name \<in> set variantLabels" by (rule classifyGameVariant_label)
  show "classifyGameVariant ''Dealers Choice'' = ''Dealers Choice''" by code_simp
  show "classifyGameVariant ''Mixed Games'' = ''Mixed Games''" by code_simp
  show "classifyGameVariant ''H.O.R.S.E.'' = ''H.O.R.S.E.''" by code_simp
  show "classifyGameVariant ''T.O.R.S.E.'' = ''T.O.R.S.E.''" by code_simp
  show "classifyGameVariant ''PLO'' = ''PLO''" by code_simp
  show "classifyGameVariant ''PLO Hi-Lo'' = ''PLO Hi-Lo''" by code_simp
  show "classifyGameVariant ''5-Card PLO'' = ''5-Card PLO''" by code_simp
  show "classifyGameVariant ''Big O'' = ''Big O''" by code_simp
  show "classifyGameVariant ''Omaha Hi-Lo'' = ''Omaha Hi-Lo''" by code_simp
  show "classifyGameVariant ''2-7 Triple Draw'' = ''2-7 Triple Draw''" by code_simp
  show "classifyGameVariant ''2-7 Lowball'' = ''2-7 Lowball''" by code_simp
  show "classifyGameVariant ''Stud Hi-Lo'' = ''Stud Hi-Lo''" by code_simp
  show "classifyGameVariant ''Razz'' = ''Razz''" by code_simp
  show "classifyGameVariant ''Badugi'' = ''Badugi''" by code_simp
  show "classifyGameVariant ''Limit Holdem'' = ''Limit Holdem''" by code_simp
  show "classifyGameVariant ''NLHE'' = ''NLHE''" by code_simp
  show "classifyGameVariant ''7-Card Stud'' = ''NLHE''" by code_simp
qed

text \<open>
  The claim as stated fails at the label \<open>7-Card Stud\<close>, which the classifier returns
  for a seven card stud event and does not map to itself.
\<close>

theorem classifyGameVariant_not_idempotent:
  "classifyGameVariant ''Seven Card Stud'' = ''7-Card Stud''
   \<and> classifyGameVariant ''7-Card Stud'' \<noteq> ''7-Card Stud''"
  by code_simp

lemma indexOf_first:
  "indexOf s ch = Some n \<Longrightarrow> n < length s \<and> s ! n = ch \<and> ch \<notin> set (take n s)"
proof (induction s arbitrary: n)
  case Nil
  then show ?case by simp
next
  case (Cons c cs)
  show ?case
  proof (cases "c = ch")
    case True
    with Cons.prems show ?thesis by simp
  next
    case False
    with Cons.prems obtain m where m: "indexOf cs ch = Some m" and n: "n = Suc m"
      by auto
    from Cons.IH [OF m] False n show ?thesis by simp
  qed
qed

lemma indexOf_absent: "ch \<notin> set s \<Longrightarrow> indexOf s ch = None"
  by (induction s) auto

lemma mainName_prefix:
  assumes "indexOf name (CHR '';'') = Some semi"
  shows "mainName (take semi name) = take semi name"
proof -
  from assms have "CHR '';'' \<notin> set (take semi name)"
    using indexOf_first by blast
  then have "indexOf (take semi name) (CHR '';'') = None" by (rule indexOf_absent)
  then show ?thesis by (simp add: mainName_def)
qed

text \<open>
  Claim C8, as the code has it. For a name whose first semicolon stands at an index
  greater than 0, the label is the label of the text before that semicolon. A name that
  begins with a semicolon is classified as a whole (the guard is \<open>semi > 0\<close>).
\<close>

theorem classifyGameVariant_before_semicolon:
  "(indexOf name (CHR '';'') = Some semi \<and> 0 < semi
      \<longrightarrow> classifyGameVariant name = classifyGameVariant (take semi name))
   \<and> (indexOf name (CHR '';'') = Some 0
      \<longrightarrow> classifyGameVariant name = variantOf (toLowerCase name))"
proof (intro conjI impI)
  assume a: "indexOf name (CHR '';'') = Some semi \<and> 0 < semi"
  then have "mainName name = take semi name" by (simp add: mainName_def)
  moreover from a have "mainName (take semi name) = take semi name"
    by (simp add: mainName_prefix)
  ultimately show "classifyGameVariant name = classifyGameVariant (take semi name)"
    by (simp add: classifyGameVariant_def)
next
  assume "indexOf name (CHR '';'') = Some 0"
  then show "classifyGameVariant name = variantOf (toLowerCase name)"
    by (simp add: classifyGameVariant_def mainName_def)
qed

theorem classifyGameVariant_before_semicolon_witness:
  "classifyGameVariant ''NLH; razz'' = classifyGameVariant ''NLH''
   \<and> classifyGameVariant '';razz'' = variantOf '';razz''"
proof
  have i3: "indexOf ''NLH; razz'' (CHR '';'') = Some 3" by code_simp
  have t3: "take 3 ''NLH; razz'' = ''NLH''" by code_simp
  show "classifyGameVariant ''NLH; razz'' = classifyGameVariant ''NLH''"
    using classifyGameVariant_before_semicolon [of "''NLH; razz''" 3] i3 t3 by simp
  have i0: "indexOf '';razz'' (CHR '';'') = Some 0" by code_simp
  have lo: "toLowerCase '';razz'' = '';razz''" by code_simp
  show "classifyGameVariant '';razz'' = variantOf '';razz''"
    using classifyGameVariant_before_semicolon [of "'';razz''" 0] i0 lo by simp
qed

text \<open>
  The claim as stated fails for a name that begins with a semicolon: the text before the
  semicolon is empty and has the default label, but the whole name is classified.
\<close>

theorem classifyGameVariant_leading_semicolon:
  "indexOf '';razz'' (CHR '';'') = Some 0
   \<and> classifyGameVariant '';razz'' = ''Razz''
   \<and> classifyGameVariant (take 0 '';razz'') = ''NLHE''
   \<and> classifyGameVariant '';razz'' \<noteq> classifyGameVariant (take 0 '';razz'')"
  by code_simp


section \<open>Properties of the columnar pipeline\<close>

lemma nthOpt_mem: "nthOpt xs i = Some x \<Longrightarrow> x \<in> set xs"
proof (induction xs i rule: nthOpt.induct)
  case (1 i)
  then show ?case by simp
next
  case (2 x xs)
  then show ?case by simp
next
  case (3 x xs i)
  then show ?case by simp
qed

lemma length_map_filter_le: "length (List.map_filter f xs) \<le> length xs"
  by (simp add: List.map_filter_def)

lemma set_map_filter: "y \<in> set (List.map_filter f xs) \<Longrightarrow> \<exists>x \<in> set xs. f x = Some y"
  by (auto simp: List.map_filter_def)

lemma eventNumbers_flushBuffer: "eventNumbers (flushBuffer st) = eventNumbers st"
  by (simp add: flushBuffer_def)

lemma eventNumbers_collectLine: "eventNumbers (collectLine st line) = eventNumbers st"
  by (cases "section' st") (simp_all add: collectLine_def split: option.splits)

text \<open>A line enters \<open>eventNumbers\<close> only when it has the form of an event number.\<close>

lemma eventNumbers_nameOrNumber:
  "eventNumbers (nameOrNumber st line) = eventNumbers st
   \<or> (rtest False re_event_number line
       \<and> eventNumbers (nameOrNumber st line) = eventNumbers st @ [line])"
  by (simp add: nameOrNumber_def eventNumbers_flushBuffer)

lemma eventNumbers_scanLine:
  "eventNumbers (scanLine st line) = eventNumbers st
   \<or> (rtest False re_event_number line
       \<and> eventNumbers (scanLine st line) = eventNumbers st @ [line])"
proof -
  have "eventNumbers (nameOrNumber (collectLine st line) line) = eventNumbers st
   \<or> (rtest False re_event_number line
       \<and> eventNumbers (nameOrNumber (collectLine st line) line) = eventNumbers st @ [line])"
    using eventNumbers_nameOrNumber [of "collectLine st line" line]
    by (simp add: eventNumbers_collectLine)
  then show ?thesis
    by (simp add: scanLine_def eventNumbers_flushBuffer)
qed

lemma eventNumbers_scan_all:
  assumes "list_all (rtest False re_event_number) (eventNumbers st)"
  shows "list_all (rtest False re_event_number) (eventNumbers (foldl scanLine st lines))"
  using assms
proof (induction lines arbitrary: st)
  case Nil
  then show ?case by simp
next
  case (Cons line lines)
  have "list_all (rtest False re_event_number) (eventNumbers (scanLine st line))"
    using eventNumbers_scanLine [of st line] Cons.prems by auto
  then show ?case using Cons.IH by simp
qed

lemma eventNumbers_findSections:
  "list_all (rtest False re_event_number) (eventNumbers (findSections lines))"
proof -
  have "list_all (rtest False re_event_number) (eventNumbers initialScan)"
    by (simp add: initialScan_def)
  then have "list_all (rtest False re_event_number) (eventNumbers (foldl scanLine initialScan lines))"
    by (rule eventNumbers_scan_all)
  then show ?thesis
    by (simp add: findSections_def Let_def eventNumbers_flushBuffer)
qed

lemma event_number_not_empty: "rtest False re_event_number n \<Longrightarrow> n \<noteq> []"
proof
  assume "rtest False re_event_number n" and "n = []"
  then have "rtest False re_event_number []" by simp
  moreover have "\<not> rtest False re_event_number []" by code_simp
  ultimately show False by simp
qed

lemma pageEvent_eventNumber:
  assumes "pageEvent s year i = Some t"
  shows "\<exists>n. nthOpt (eventNumbers s) i = Some n \<and> eventNumber t = Some n"
proof (cases "nthOpt (eventNumbers s) i")
  case None
  with assms show ?thesis by (simp add: pageEvent_def)
next
  case (Some n)
  with assms have "eventNumber t = Some n"
    by (auto simp: pageEvent_def Let_def split: option.splits if_splits jsnum.splits)
  with Some show ?thesis by simp
qed

text \<open>
  Claim C7. \<open>parsePage\<close> returns at most as many records as there are event-number
  tokens (the lines of the form of an event number collected in the EV# section), and the
  event number of every record is one of these tokens: a string, and not empty.
\<close>

theorem parsePage_event_numbers:
  "length (parsePage pageText year)
     \<le> length (eventNumbers (findSections (pageLines pageText)))
   \<and> (\<forall>t \<in> set (parsePage pageText year).
        \<exists>n. eventNumber t = Some n \<and> n \<noteq> []
            \<and> n \<in> set (eventNumbers (findSections (pageLines pageText)))
            \<and> rtest False re_event_number n)"
proof
  define s where "s = findSections (pageLines pageText)"
  show "length (parsePage pageText year) \<le> length (eventNumbers s)"
  proof (cases "eventNumbers s = []")
    case True
    then show ?thesis by (simp add: parsePage_def s_def)
  next
    case False
    then have "parsePage pageText year
        = List.map_filter (pageEvent s year) [0..<length (eventNumbers s)]"
      by (simp add: parsePage_def s_def Let_def)
    then show ?thesis
      using length_map_filter_le [of "pageEvent s year" "[0..<length (eventNumbers s)]"]
      by simp
  qed
  show "\<forall>t \<in> set (parsePage pageText year).
        \<exists>n. eventNumber t = Some n \<and> n \<noteq> [] \<and> n \<in> set (eventNumbers s)
            \<and> rtest False re_event_number n"
  proof
    fix t assume t: "t \<in> set (parsePage pageText year)"
    then have "t \<in> set (List.map_filter (pageEvent s year) [0..<length (eventNumbers s)])"
      by (cases "eventNumbers s = []") (simp_all add: parsePage_def s_def Let_def)
    then obtain i where "pageEvent s year i = Some t"
      using set_map_filter by fastforce
    then obtain n where n: "nthOpt (eventNumbers s) i = Some n" "eventNumber t = Some n"
      using pageEvent_eventNumber by blast
    from n(1) have mem: "n \<in> set (eventNumbers s)" by (rule nthOpt_mem)
    have "list_all (rtest False re_event_number) (eventNumbers s)"
      unfolding s_def by (rule eventNumbers_findSections)
    with mem have ok: "rtest False re_event_number n" by (simp add: list_all_iff)
    then have "n \<noteq> []" by (rule event_number_not_empty)
    with n(2) mem ok
    show "\<exists>n. eventNumber t = Some n \<and> n \<noteq> [] \<and> n \<in> set (eventNumbers s)
            \<and> rtest False re_event_number n" by blast
  qed
qed

text \<open>On the page with two tokens and one buy-in: one record, for event 59.\<close>

theorem parsePage_event_numbers_witness:
  "length (parsePage page_two_tokens 2026) = 1
   \<and> eventNumbers (findSections (pageLines page_two_tokens)) = [''59'', ''7'']
   \<and> (\<exists>n. eventNumber (hd (parsePage page_two_tokens 2026)) = Some n \<and> n \<noteq> [])"
proof -
  have len: "length (parsePage page_two_tokens 2026) = 1" by code_simp
  have evs: "eventNumbers (findSections (pageLines page_two_tokens)) = [''59'', ''7'']"
    by code_simp
  from len have "hd (parsePage page_two_tokens 2026) \<in> set (parsePage page_two_tokens 2026)"
    by (cases "parsePage page_two_tokens 2026") simp_all
  then have "\<exists>n. eventNumber (hd (parsePage page_two_tokens 2026)) = Some n \<and> n \<noteq> []"
    using parsePage_event_numbers [of page_two_tokens 2026] by blast
  with len evs show ?thesis by simp
qed


section \<open>Properties of the row pipeline\<close>

text \<open>What \<open>parseRow\<close> puts into the fields of a record.\<close>

lemma parseRow_fields:
  assumes "parseRow rowLines year v = Inr (Some t)"
  shows "rowLines \<noteq> [] \<and> rexec True re_date (joinedOf rowLines) \<noteq> None
    \<and> isRestart t = isRestartName (eventNameOf (joinedOf rowLines))
    \<and> buyin t = buyinOf (joinedOf rowLines)
    \<and> parentEvent t = parentEventOf (eventNameOf (joinedOf rowLines))
    \<and> prizePool t = columnValue (joinedOf rowLines) 1
    \<and> houseFee t = columnValue (joinedOf rowLines) 2
    \<and> optAddOn t = columnValue (joinedOf rowLines) 3
    \<and> rakePct t = map_option fst
          (rowRake (totalEntryOf (joinedOf rowLines)) (columnValue (joinedOf rowLines) 1))
    \<and> rakeDollars t = map_option snd
          (rowRake (totalEntryOf (joinedOf rowLines)) (columnValue (joinedOf rowLines) 1))"
proof (cases rowLines)
  case Nil
  with assms show ?thesis by (simp add: parseRow_def)
next
  case (Cons first rest)
  show ?thesis
  proof (cases "rexec True re_date (joinedOf rowLines)")
    case None
    with assms Cons show ?thesis by (simp add: parseRow_def Let_def)
  next
    case (Some dm)
    with assms Cons have "t = the (case parseRow rowLines year v of Inr r \<Rightarrow> r)" by simp
    with Cons Some show ?thesis
      by (simp add: parseRow_def Let_def)
  qed
qed


lemma parseRow_date:
  assumes "rowLines \<noteq> []" and "rexec True re_date (joinedOf rowLines) \<noteq> None"
  shows "\<exists>t. parseRow rowLines year v = Inr (Some t)"
proof (cases rowLines)
  case Nil
  with assms(1) show ?thesis by simp
next
  case (Cons first rest)
  from assms(2) obtain dm where "rexec True re_date (joinedOf rowLines) = Some dm" by auto
  with Cons show ?thesis by (simp add: parseRow_def Let_def)
qed


lemma empty_row_no_date: "rexec True re_date (joinedOf []) = None"
  by code_simp

text \<open>
  Claim C9. A row with a date whose extracted event name is
  "NLH MAIN EVENT DAY 2 RESTART" gives a record that is a restart, with buy-in 0 whatever
  the total entry of the row, and with parent event "MAIN EVENT".
\<close>

theorem parseRow_main_event_restart:
  assumes "rexec True re_date (joinedOf rowLines) \<noteq> None"
    and "eventNameOf (joinedOf rowLines) = ''NLH MAIN EVENT DAY 2 RESTART''"
  shows "\<exists>t. parseRow rowLines year v = Inr (Some t)
            \<and> isRestart t \<and> buyin t = Num 0 \<and> parentEvent t = Some ''MAIN EVENT''"
proof -
  have ne: "rowLines \<noteq> []" using assms(1) empty_row_no_date by auto
  then obtain t where t: "parseRow rowLines year v = Inr (Some t)"
    using assms(1) parseRow_date by blast
  have restart: "isRestartName ''NLH MAIN EVENT DAY 2 RESTART''" by code_simp
  have parent: "parentEventOf ''NLH MAIN EVENT DAY 2 RESTART'' = Some ''MAIN EVENT''"
    by code_simp
  have "isRestart t" using parseRow_fields [OF t] assms(2) restart by simp
  moreover have "buyin t = Num 0"
    using parseRow_fields [OF t] assms(2) restart by (simp add: buyinOf_def)
  moreover have "parentEvent t = Some ''MAIN EVENT''"
    using parseRow_fields [OF t] assms(2) parent by simp
  ultimately show ?thesis using t by blast
qed

text \<open>The row of 4 July carries a total entry of 10000, and the buy-in is 0.\<close>

theorem parseRow_main_event_restart_witness:
  "totalEntryOf (joinedOf row_main_event_restart) = Num 10000
   \<and> (\<exists>t. parseRow row_main_event_restart (Num 2026) ''Venue'' = Inr (Some t)
            \<and> isRestart t \<and> buyin t = Num 0 \<and> parentEvent t = Some ''MAIN EVENT'')"
proof
  show "totalEntryOf (joinedOf row_main_event_restart) = Num 10000" by code_simp
  have d: "rexec True re_date (joinedOf row_main_event_restart) \<noteq> None" by code_simp
  have n: "eventNameOf (joinedOf row_main_event_restart) = ''NLH MAIN EVENT DAY 2 RESTART''"
    by code_simp
  show "\<exists>t. parseRow row_main_event_restart (Num 2026) ''Venue'' = Inr (Some t)
            \<and> isRestart t \<and> buyin t = Num 0 \<and> parentEvent t = Some ''MAIN EVENT''"
    using parseRow_main_event_restart [OF d n] .
qed



lemma parseRows_mem:
  assumes "parseRows rows year v = Inr ts" and "t \<in> set ts"
  shows "\<exists>row \<in> set rows. parseRow row year v = Inr (Some t)"
  using assms
proof (induction rows arbitrary: ts)
  case Nil
  then show ?case by simp
next
  case (Cons row rows)
  from Cons.prems(1) obtain parsed ts' where
    p: "parseRow row year v = Inr parsed" and r: "parseRows rows year v = Inr ts'"
    and ts: "ts = (case parsed of None \<Rightarrow> ts' | Some t' \<Rightarrow> t' # ts')"
    by (auto split: sum.splits)
  show ?case
  proof (cases "t \<in> set ts'")
    case True
    with Cons.IH [OF r] show ?thesis by auto
  next
    case False
    with Cons.prems(2) ts have "parsed = Some t" by (cases parsed) auto
    with p show ?thesis by simp
  qed
qed

text \<open>
  Every record that \<open>parseGenericSchedule\<close> returns is the record of \<open>parseRow\<close> for one
  of the rows, with the parent event possibly set by the linking pass.
\<close>

lemma generic_output:
  assumes "parseGenericSchedule text vo now = Inr ts" and "t \<in> set ts"
  shows "\<exists>row \<in> set (dataRows text now). \<exists>v nums t0.
           parseRow row (scheduleYear text now) v = Inr (Some t0) \<and> t = linkOne nums t0"
proof -
  define v where "v = (case vo of None \<Rightarrow> detectVenue (join [CHR 0x0A] (splitPages text))
      | Some x \<Rightarrow> if x = [] then detectVenue (join [CHR 0x0A] (splitPages text)) else x)"
  have "parseGenericSchedule text vo now =
        (case parseRows (dataRows text now) (scheduleYear text now) v of
           Inl e \<Rightarrow> Inl e
         | Inr tournaments \<Rightarrow> Inr (linkRestartsToParents tournaments))"
    unfolding parseGenericSchedule_def Let_def dataRows_def scheduleYear_def v_def ..
  with assms(1) obtain ts0 where
    p: "parseRows (dataRows text now) (scheduleYear text now) v = Inr ts0"
    and l: "ts = linkRestartsToParents ts0"
    by (auto split: sum.splits)
  from l assms(2) obtain nums t0 where t0: "t0 \<in> set ts0" and t: "t = linkOne nums t0"
    by (auto simp: linkRestartsToParents_def)
  from parseRows_mem [OF p t0] t show ?thesis by blast
qed






section \<open>Properties of the two pipelines\<close>

lemma nthOpt_undefined: "(nthOpt xs i = None) = (length xs \<le> i)"
proof (induction xs i rule: nthOpt.induct)
  case (1 i)
  show ?case by simp
next
  case (2 x xs)
  show ?case by simp
next
  case (3 x xs i)
  then show ?case by simp
qed

lemma columnValue_undefined:
  "(columnValue joined k = None) = (length (filteredColumnDollars joined) \<le> k)"
  by (simp add: columnValue_def nthOpt_undefined)

lemma rowRake_needs_pool: "pool = None \<Longrightarrow> rowRake te pool = None"
  by (simp add: rowRake_def split: jsnum.splits)

lemma parseRow_rake_fields:
  assumes "parseRow rowLines year v = Inr (Some t)"
  shows "rake_fields_row t"
proof -
  define j where "j = joinedOf rowLines"
  define rk where "rk = rowRake (totalEntryOf j) (columnValue j 1)"
  have f: "prizePool t = columnValue j 1" "houseFee t = columnValue j 2"
    "optAddOn t = columnValue j 3" "rakePct t = map_option fst rk"
    "rakeDollars t = map_option snd rk"
    using parseRow_fields [OF assms] by (simp_all add: j_def rk_def)
  have "columnValue j 1 = None \<Longrightarrow> rk = None"
    unfolding rk_def by (rule rowRake_needs_pool)
  moreover have "columnValue j 2 = None \<Longrightarrow> columnValue j 3 = None"
    by (simp add: columnValue_undefined)
  moreover have "columnValue j 1 = None \<Longrightarrow> columnValue j 2 = None"
    by (simp add: columnValue_undefined)
  ultimately show ?thesis
    unfolding rake_fields_row_def f by (cases rk) auto
qed

lemma linkOne_rake_fields: "rake_fields_row (linkOne nums t) = rake_fields_row t"
  by (simp add: linkOne_def rake_fields_row_def split: option.splits)

lemma generic_output_rake_fields:
  assumes "parseGenericSchedule text vo now = Inr ts" and "t \<in> set ts"
  shows "rake_fields_row t"
proof -
  from generic_output [OF assms] obtain row v nums t0 where
    p: "parseRow row (scheduleYear text now) v = Inr (Some t0)"
    and t: "t = linkOne nums t0" by blast
  from p have "rake_fields_row t0" by (rule parseRow_rake_fields)
  then show ?thesis unfolding t by (simp add: linkOne_rake_fields)
qed

lemma getWSOPRake_all_set:
  "rake.prizePool (getWSOPRake b ev) \<noteq> None \<and> rake.houseFee (getWSOPRake b ev) \<noteq> None
   \<and> rake.optAddOn (getWSOPRake b ev) \<noteq> None \<and> rake.rakePct (getWSOPRake b ev) \<noteq> None
   \<and> rake.rakeDollars (getWSOPRake b ev) \<noteq> None"
proof -
  obtain t where "getWSOPRake b ev = tierRake t b"
    using getWSOPRake_resolves [of b ev] by blast
  then show ?thesis by (simp add: tierRake_def Let_def)
qed

lemma pageEvent_rake_fields:
  assumes "pageEvent s year i = Some t"
  shows "prizePool t \<noteq> None \<and> houseFee t \<noteq> None \<and> optAddOn t \<noteq> None
         \<and> rakePct t \<noteq> None \<and> rakeDollars t \<noteq> None"
proof -
  from assms obtain b ev where
    "prizePool t = map_option Num (rake.prizePool (getWSOPRake b ev))"
    "houseFee t = map_option Num (rake.houseFee (getWSOPRake b ev))"
    "optAddOn t = map_option Num (rake.optAddOn (getWSOPRake b ev))"
    "rakePct t = rake.rakePct (getWSOPRake b ev)"
    "rakeDollars t = rake.rakeDollars (getWSOPRake b ev)"
    by (auto simp: pageEvent_def Let_def split: option.splits if_splits jsnum.splits)
  then show ?thesis using getWSOPRake_all_set [of b ev] by simp
qed

lemma columnar_output:
  assumes "t \<in> set (parseWSOP2025Schedule text year)"
  shows "\<exists>s i. pageEvent s year i = Some t"
proof -
  from assms obtain page where "t \<in> set (parsePage page year)"
    by (auto simp: parseWSOP2025Schedule_def split: if_splits)
  then have "\<exists>s. t \<in> set (List.map_filter (pageEvent s year) [0..<length (eventNumbers s)])"
    by (auto simp: parsePage_def Let_def split: if_splits)
  then show ?thesis using set_map_filter by fastforce
qed

text \<open>
  Claim C5, as the code has it. In a record of the columnar pipeline all five rake fields
  are set. In a record of the row pipeline each of \<open>prizePool\<close>, \<open>houseFee\<close> and
  \<open>optAddOn\<close> is set when the row has a second, third and fourth column amount, and
  \<open>rakePct\<close> and \<open>rakeDollars\<close> are set together, only when the prize pool is set: the
  house fee is never set without the prize pool, nor the add-on without the house fee.
\<close>

theorem rake_fields_of_records:
  "(t \<in> set (parseWSOP2025Schedule text year) \<longrightarrow>
      prizePool t \<noteq> None \<and> houseFee t \<noteq> None \<and> optAddOn t \<noteq> None
      \<and> rakePct t \<noteq> None \<and> rakeDollars t \<noteq> None)
   \<and> (parseGenericSchedule text' vo now = Inr ts \<and> t' \<in> set ts \<longrightarrow>
        (rakePct t' = None) = (rakeDollars t' = None)
        \<and> (rakePct t' = None \<or> prizePool t' \<noteq> None)
        \<and> (optAddOn t' = None \<or> houseFee t' \<noteq> None)
        \<and> (houseFee t' = None \<or> prizePool t' \<noteq> None))"
proof
  show "t \<in> set (parseWSOP2025Schedule text year) \<longrightarrow>
      prizePool t \<noteq> None \<and> houseFee t \<noteq> None \<and> optAddOn t \<noteq> None
      \<and> rakePct t \<noteq> None \<and> rakeDollars t \<noteq> None"
  proof
    assume "t \<in> set (parseWSOP2025Schedule text year)"
    then obtain s i where "pageEvent s year i = Some t" using columnar_output by blast
    then show "prizePool t \<noteq> None \<and> houseFee t \<noteq> None \<and> optAddOn t \<noteq> None
        \<and> rakePct t \<noteq> None \<and> rakeDollars t \<noteq> None"
      by (rule pageEvent_rake_fields)
  qed
  show "parseGenericSchedule text' vo now = Inr ts \<and> t' \<in> set ts \<longrightarrow>
        (rakePct t' = None) = (rakeDollars t' = None)
        \<and> (rakePct t' = None \<or> prizePool t' \<noteq> None)
        \<and> (optAddOn t' = None \<or> houseFee t' \<noteq> None)
        \<and> (houseFee t' = None \<or> prizePool t' \<noteq> None)"
  proof
    assume "parseGenericSchedule text' vo now = Inr ts \<and> t' \<in> set ts"
    then have "rake_fields_row t'" using generic_output_rake_fields by blast
    then show "(rakePct t' = None) = (rakeDollars t' = None)
          \<and> (rakePct t' = None \<or> prizePool t' \<noteq> None)
          \<and> (optAddOn t' = None \<or> houseFee t' \<noteq> None)
          \<and> (houseFee t' = None \<or> prizePool t' \<noteq> None)"
      unfolding rake_fields_row_def .
  qed
qed

text \<open>
  On the page with one record (event 59 at 500) and on the schedule with one row of two
  amounts.
\<close>

theorem rake_fields_of_records_witness:
  "(let t = hd (parseWSOP2025Schedule page_two_tokens 2026)
    in prizePool t \<noteq> None \<and> houseFee t \<noteq> None \<and> optAddOn t \<noteq> None
       \<and> rakePct t \<noteq> None \<and> rakeDollars t \<noteq> None)
   \<and> (\<exists>t'. parseGenericSchedule schedule_no_year None 2026 = Inr [t']
          \<and> (rakePct t' = None) = (rakeDollars t' = None)
          \<and> (houseFee t' = None \<or> prizePool t' \<noteq> None))"
proof
  have "length (parseWSOP2025Schedule page_two_tokens 2026) = 1" by code_simp
  then have "hd (parseWSOP2025Schedule page_two_tokens 2026)
      \<in> set (parseWSOP2025Schedule page_two_tokens 2026)"
    by (cases "parseWSOP2025Schedule page_two_tokens 2026") simp_all
  then show "let t = hd (parseWSOP2025Schedule page_two_tokens 2026)
    in prizePool t \<noteq> None \<and> houseFee t \<noteq> None \<and> optAddOn t \<noteq> None
       \<and> rakePct t \<noteq> None \<and> rakeDollars t \<noteq> None"
    using rake_fields_of_records
      [of "hd (parseWSOP2025Schedule page_two_tokens 2026)" page_two_tokens 2026]
    by (simp add: Let_def)
  have "length (case parseGenericSchedule schedule_no_year None 2026 of
                  Inl e \<Rightarrow> [] | Inr ts \<Rightarrow> ts) = 1" by code_simp
  then obtain t' where t': "parseGenericSchedule schedule_no_year None 2026 = Inr [t']"
    by (cases "parseGenericSchedule schedule_no_year None 2026")
       (auto simp: length_Suc_conv)
  then have "(rakePct t' = None) = (rakeDollars t' = None)
          \<and> (houseFee t' = None \<or> prizePool t' \<noteq> None)"
    using rake_fields_of_records [of _ _ _ schedule_no_year None 2026 "[t']" t'] by simp
  with t' show "\<exists>t'. parseGenericSchedule schedule_no_year None 2026 = Inr [t']
          \<and> (rakePct t' = None) = (rakeDollars t' = None)
          \<and> (houseFee t' = None \<or> prizePool t' \<noteq> None)" by (intro exI [of _ t']) simp
qed

text \<open>
  The claim as stated fails in the row pipeline on a row with two column amounts: the
  prize pool, the rake percentage and the rake dollars are set, the house fee and the
  optional add-on are not.
\<close>

theorem rake_fields_partly_set:
  "map_sum id (map (\<lambda>t. (prizePool t, houseFee t, optAddOn t, rakePct t, rakeDollars t)))
     (parseGenericSchedule schedule_no_year None 2026)
   = Inr [(Some (Num 505), None, None, Some 15.8, Some 95)]"
  by code_simp












end
